theory Spec2Isabelle
  imports Complex_Main
begin

section \<open>Conventions of the embedding\<close>

text \<open>
  The engine computes on JavaScript numbers. Currency-like quantities and rates are
  modelled as \<open>real\<close> (exact arithmetic, no rounding); years, useful lives, loan terms
  and grace periods, which the data model restricts to integers, are modelled as \<open>int\<close>;
  array indices and loop counters that start at 0 are \<open>nat\<close>.
  \<open>Math.pow (1 + r, t)\<close> with a non-negative integer exponent is \<open>(1 + r) ^ t\<close>.
  A division by zero yields \<open>Infinity\<close> or \<open>NaN\<close> in the source and \<open>0\<close> in HOL; the
  general theorems below either have hypotheses under which no divisor is zero or say
  that the quotient is never read, and the evaluations use inputs without such a
  division.

  Two statements of the specification speak about what rounding leaves behind: the
  ending balance of the last row of a loan schedule and the \<open>cash\<close> field of the
  balance sheet. For these the functions involved are embedded a second time, over a
  model of the binary64 arithmetic of JavaScript numbers (section
  \<open>Double-precision arithmetic\<close>); the second embedding of a function \<open>f\<close> is
  called \<open>f_d\<close>.
\<close>

section \<open>Depreciation kernel (depreciation.ts)\<close>

datatype depreciation_method = straight_line | declining_balance | none

definition straightLineDepreciation :: "real \<Rightarrow> real \<Rightarrow> int \<Rightarrow> real" where
  "straightLineDepreciation cost salvageValue usefulLife =
     (if usefulLife \<le> 0 then 0 else (cost - salvageValue) / real_of_int usefulLife)"

text \<open>
  The loop \<open>for (y = 1; y < year; y++)\<close> of \<open>decliningBalanceDepreciation\<close>: the last
  argument counts the iterations still to run; the \<open>break\<close> leaves the book value at the
  salvage value.
\<close>

fun db_bookValue :: "real \<Rightarrow> real \<Rightarrow> real \<Rightarrow> nat \<Rightarrow> real" where
  "db_bookValue bookValue depreciationRate salvageValue 0 = bookValue"
| "db_bookValue bookValue depreciationRate salvageValue (Suc n) =
     (let bv = bookValue - bookValue * depreciationRate
      in if bv \<le> salvageValue then salvageValue
         else db_bookValue bv depreciationRate salvageValue n)"

definition decliningBalanceDepreciation :: "real \<Rightarrow> real \<Rightarrow> real \<Rightarrow> int \<Rightarrow> int \<Rightarrow> real" where
  "decliningBalanceDepreciation cost salvageValue rate year usefulLife =
     (if year > usefulLife then 0
      else let depreciationRate = rate / 100;
               bookValue = db_bookValue cost depreciationRate salvageValue (nat (year - 1))
           in if bookValue \<le> salvageValue then 0
              else min (bookValue * depreciationRate) (bookValue - salvageValue))"

definition calculateDepreciation ::
  "real \<Rightarrow> real \<Rightarrow> int \<Rightarrow> real \<Rightarrow> depreciation_method \<Rightarrow> int \<Rightarrow> int \<Rightarrow> real" where
  "calculateDepreciation cost salvageValue usefulLife depreciationRate method year purchaseYear =
     (let yearsSincePurchase = year - purchaseYear
      in if yearsSincePurchase < 0 \<or> yearsSincePurchase \<ge> usefulLife then 0
         else case method of
                straight_line \<Rightarrow> straightLineDepreciation cost salvageValue usefulLife
              | declining_balance \<Rightarrow>
                  decliningBalanceDepreciation cost salvageValue depreciationRate
                    (yearsSincePurchase + 1) usefulLife
              | none \<Rightarrow> 0)"

definition calculateAccumulatedDepreciation ::
  "real \<Rightarrow> real \<Rightarrow> int \<Rightarrow> real \<Rightarrow> depreciation_method \<Rightarrow> int \<Rightarrow> int \<Rightarrow> real" where
  "calculateAccumulatedDepreciation cost salvageValue usefulLife depreciationRate method
       currentYear purchaseYear =
     (let accumulated =
            foldl (\<lambda>acc year. acc + calculateDepreciation cost salvageValue usefulLife
                                      depreciationRate method year purchaseYear)
              0 [purchaseYear..currentYear]
      in min accumulated (cost - salvageValue))"

section \<open>Amortisation kernel (financing.ts)\<close>

record AmortizationSchedule =
  am_year :: int
  am_beginningBalance :: real
  am_payment :: real
  am_principal :: real
  am_interest :: real
  am_endingBalance :: real

text \<open>
  The body of the loop \<open>for (year = 1; year <= termYears; year++)\<close>, with the running
  \<open>balance\<close> and the loop variable as arguments; the last argument counts the rows
  still to be pushed.
\<close>

fun amortization_rows ::
  "real \<Rightarrow> real \<Rightarrow> int \<Rightarrow> real \<Rightarrow> int \<Rightarrow> nat \<Rightarrow> AmortizationSchedule list" where
  "amortization_rows rate principalPayment gracePeriod balance year 0 = []"
| "amortization_rows rate principalPayment gracePeriod balance year (Suc n) =
     (let interestPayment = balance * rate;
          principalPaid = (if year > gracePeriod then principalPayment else 0);
          totalPayment = principalPaid + interestPayment;
          endingBal = balance - principalPaid
      in \<lparr> am_year = year, am_beginningBalance = balance, am_payment = totalPayment,
           am_principal = principalPaid, am_interest = interestPayment,
           am_endingBalance = max 0 endingBal \<rparr>
         # amortization_rows rate principalPayment gracePeriod endingBal (year + 1) n)"

definition calculateAmortizationSchedule ::
  "real \<Rightarrow> real \<Rightarrow> int \<Rightarrow> int \<Rightarrow> AmortizationSchedule list" where
  "calculateAmortizationSchedule principal' annualRate termYears gracePeriod =
     (let rate = annualRate / 100;
          principalPayment = principal' / real_of_int (termYears - gracePeriod)
      in amortization_rows rate principalPayment gracePeriod principal' 1 (nat termYears))"

record DebtService =
  ds_principal :: real
  ds_interest :: real
  ds_total :: real

record FinancingData =
  fin_type :: string
  fin_amount :: real
  fin_interestRate :: real
  fin_termYears :: int
  fin_gracePeriod :: int
  fin_disbursementYear :: int
  fin_repaymentStartYear :: int

text \<open>
  \<open>calculateDebtService\<close>: the pair is \<open>(totalPrincipal, totalInterest)\<close>;
  \<open>schedule[yearIndex]\<close> is read only inside the bounds check.
\<close>

definition debtService_step :: "int \<Rightarrow> real \<times> real \<Rightarrow> FinancingData \<Rightarrow> real \<times> real" where
  "debtService_step year acc item =
     (if fin_type item \<noteq> ''loan'' then acc
      else let schedule = calculateAmortizationSchedule (fin_amount item) (fin_interestRate item)
                            (fin_termYears item) (fin_gracePeriod item);
               yearIndex = year - fin_repaymentStartYear item
           in if yearIndex \<ge> 0 \<and> yearIndex < int (length schedule)
              then (fst acc + am_principal (schedule ! nat yearIndex),
                    snd acc + am_interest (schedule ! nat yearIndex))
              else acc)"

definition calculateDebtService :: "FinancingData list \<Rightarrow> int \<Rightarrow> DebtService" where
  "calculateDebtService financingItems year =
     (let totals = foldl (debtService_step year) (0, 0) financingItems
      in \<lparr> ds_principal = fst totals, ds_interest = snd totals,
           ds_total = fst totals + snd totals \<rparr>)"

section \<open>Indicator calculator (indicators.ts)\<close>

definition calculateNPV :: "real list \<Rightarrow> real \<Rightarrow> real" where
  "calculateNPV cashFlows discountRate =
     (let rate = discountRate / 100
      in foldl (\<lambda>npv (t, cf). npv + cf / (1 + rate) ^ t) 0 (enumerate 0 cashFlows))"

text \<open>
  The inner loop of \<open>calculateIRR\<close>: the pair is \<open>(npv, npvDerivative)\<close> at the
  current \<open>rate\<close>.
\<close>

definition irr_sums :: "real list \<Rightarrow> real \<Rightarrow> real \<times> real" where
  "irr_sums cashFlows rate =
     foldl (\<lambda>(npv, npvDerivative) (t, cf).
              (npv + cf / (1 + rate) ^ t,
               if t > 0 then npvDerivative - (real t * cf) / (1 + rate) ^ (t + 1)
               else npvDerivative))
       (0, 0) (enumerate 0 cashFlows)"

definition irr_newRate :: "real list \<Rightarrow> real \<Rightarrow> real" where
  "irr_newRate cashFlows rate =
     rate - fst (irr_sums cashFlows rate) / snd (irr_sums cashFlows rate)"

definition irr_derivativeGuard :: "real list \<Rightarrow> real \<Rightarrow> bool" where
  "irr_derivativeGuard cashFlows rate = (\<bar>snd (irr_sums cashFlows rate)\<bar> < 1 / 10 ^ 10)"

definition irr_withinTolerance :: "real list \<Rightarrow> real \<Rightarrow> bool" where
  "irr_withinTolerance cashFlows rate = (\<bar>irr_newRate cashFlows rate - rate\<bar> < 1 / 10000)"

text \<open>
  The outer loop \<open>for (i = 0; i < maxIterations; i++)\<close>; the first argument counts the
  iterations still allowed. The \<open>break\<close> at the derivative guard and the exhausted loop
  both reach the final \<open>return rate * 100\<close>.
\<close>

fun irr_loop :: "nat \<Rightarrow> real list \<Rightarrow> real \<Rightarrow> real" where
  "irr_loop 0 cashFlows rate = rate * 100"
| "irr_loop (Suc n) cashFlows rate =
     (if irr_derivativeGuard cashFlows rate then rate * 100
      else let newRate = irr_newRate cashFlows rate
           in if irr_withinTolerance cashFlows rate then newRate * 100
              else irr_loop n cashFlows newRate)"

definition calculateIRR :: "real list \<Rightarrow> real \<Rightarrow> real" where
  "calculateIRR cashFlows guess = irr_loop 100 cashFlows guess"

text \<open>
  \<open>calculateMIRR\<close>. \<open>Math.pow (x, 1 / n)\<close> is \<open>x powr (1 / n)\<close>, which agrees with
  the source for \<open>x > 0\<close> and \<open>n > 0\<close>; elsewhere the source yields \<open>NaN\<close> or an
  infinity and no statement below reads the field.
\<close>

definition calculateMIRR :: "real list \<Rightarrow> real \<Rightarrow> real \<Rightarrow> real" where
  "calculateMIRR cashFlows financeRate reinvestRate =
     (let fRate = financeRate / 100;
          rRate = reinvestRate / 100;
          n = int (length cashFlows) - 1;
          pvNegative = foldl (\<lambda>pv (t, cf). if cf < 0 then pv + cf / (1 + fRate) ^ t else pv)
                         0 (enumerate 0 cashFlows);
          fvPositive = foldl (\<lambda>fv (t, cf). if cf > 0 then fv + cf * (1 + rRate) ^ nat (n - int t)
                                             else fv)
                         0 (enumerate 0 cashFlows)
      in if pvNegative = 0 then 0
         else ((- fvPositive / pvNegative) powr (1 / real_of_int n) - 1) * 100)"

fun payback_loop :: "nat \<Rightarrow> real \<Rightarrow> real list \<Rightarrow> real" where
  "payback_loop t cumulative [] = - 1"
| "payback_loop t cumulative (cf # rest) =
     (let cumulative' = cumulative + cf
      in if cumulative' \<ge> 0
         then (let prevCumulative = cumulative' - cf
               in if cf \<noteq> 0 then real t + (- prevCumulative / cf) else real t)
         else payback_loop (Suc t) cumulative' rest)"

definition calculatePaybackPeriod :: "real list \<Rightarrow> real" where
  "calculatePaybackPeriod cashFlows = payback_loop 0 0 cashFlows"

fun discountedPayback_loop :: "real \<Rightarrow> nat \<Rightarrow> real \<Rightarrow> real list \<Rightarrow> real" where
  "discountedPayback_loop rate t cumulative [] = - 1"
| "discountedPayback_loop rate t cumulative (cf # rest) =
     (let discountedCF = cf / (1 + rate) ^ t;
          cumulative' = cumulative + discountedCF
      in if cumulative' \<ge> 0
         then (let prevCumulative = cumulative' - discountedCF
               in if discountedCF \<noteq> 0 then real t + (- prevCumulative / discountedCF)
                  else real t)
         else discountedPayback_loop rate (Suc t) cumulative' rest)"

definition calculateDiscountedPaybackPeriod :: "real list \<Rightarrow> real \<Rightarrow> real" where
  "calculateDiscountedPaybackPeriod cashFlows discountRate =
     discountedPayback_loop (discountRate / 100) 0 0 cashFlows"

definition calculateROI :: "real \<Rightarrow> real \<Rightarrow> real" where
  "calculateROI totalNetIncome totalInvestment =
     (if totalInvestment = 0 then 0 else (totalNetIncome / totalInvestment) * 100)"

definition calculateBenefitCostRatio :: "real \<Rightarrow> real \<Rightarrow> real" where
  "calculateBenefitCostRatio presentValueBenefits presentValueCosts =
     (if presentValueCosts = 0 then 0 else presentValueBenefits / \<bar>presentValueCosts\<bar>)"

record BreakEven =
  be_units :: real
  be_revenue :: real

definition calculateBreakEven :: "real \<Rightarrow> real \<Rightarrow> real \<Rightarrow> BreakEven" where
  "calculateBreakEven fixedCosts unitPrice variableCostPerUnit =
     (let contributionMargin = unitPrice - variableCostPerUnit
      in if contributionMargin \<le> 0 then \<lparr> be_units = - 1, be_revenue = - 1 \<rparr>
         else let breakEvenUnits = fixedCosts / contributionMargin;
                  breakEvenRevenue = breakEvenUnits * unitPrice
              in \<lparr> be_units = breakEvenUnits, be_revenue = breakEvenRevenue \<rparr>)"

record FinancialIndicators =
  ind_npv :: real
  ind_irr :: real
  ind_mirr :: real
  paybackPeriod :: real
  discountedPaybackPeriod :: real
  roi :: real
  benefitCostRatio :: real
  breakEvenUnits :: real
  breakEvenRevenue :: real

text \<open>
  The two present values that \<open>calculateAllIndicators\<close> computes for the
  benefit-cost ratio. The index \<open>t\<close> that \<open>reduce\<close> passes to its callback is the
  position in the array it runs over, here the sliced and filtered one.
  \<open>cashFlows[0]\<close> is read without a check (\<open>undefined\<close> on an empty array).
\<close>

definition pvBenefits :: "real list \<Rightarrow> real \<Rightarrow> real" where
  "pvBenefits cashFlows discountRate =
     foldl (\<lambda>sum (t, cf). sum + cf / (1 + discountRate / 100) ^ (t + 1)) 0
       (enumerate 0 (filter (\<lambda>cf. cf > 0) (drop 1 cashFlows)))"

definition pvCosts :: "real list \<Rightarrow> real \<Rightarrow> real" where
  "pvCosts cashFlows discountRate =
     \<bar>cashFlows ! 0\<bar> +
     foldl (\<lambda>sum (t, cf). sum + \<bar>cf\<bar> / (1 + discountRate / 100) ^ (t + 1)) 0
       (enumerate 0 (filter (\<lambda>cf. cf < 0) (drop 1 cashFlows)))"

definition calculateAllIndicators ::
  "real list \<Rightarrow> real \<Rightarrow> real \<Rightarrow> real \<Rightarrow> real \<Rightarrow> real \<Rightarrow> real \<Rightarrow> FinancialIndicators" where
  "calculateAllIndicators cashFlows discountRate totalInvestment totalNetIncome fixedCosts
       avgUnitPrice avgVariableCost =
     (let breakEven = calculateBreakEven fixedCosts avgUnitPrice avgVariableCost
      in \<lparr> ind_npv = calculateNPV cashFlows discountRate,
           ind_irr = calculateIRR cashFlows (1 / 10),
           ind_mirr = calculateMIRR cashFlows discountRate discountRate,
           paybackPeriod = calculatePaybackPeriod cashFlows,
           discountedPaybackPeriod = calculateDiscountedPaybackPeriod cashFlows discountRate,
           roi = calculateROI totalNetIncome totalInvestment,
           benefitCostRatio =
             calculateBenefitCostRatio (pvBenefits cashFlows discountRate)
               (pvCosts cashFlows discountRate),
           breakEvenUnits = be_units breakEven,
           breakEvenRevenue = be_revenue breakEven \<rparr>)"

section \<open>Statement composer (projections.ts)\<close>

text \<open>
  The input records of the projection functions. \<open>startDate\<close> of \<open>ProjectData\<close> and
  \<open>name\<close> of \<open>ProductData\<close> are never read by the engine and are left out.
\<close>

record ProjectData =
  constructionYears :: int
  operationYears :: int
  proj_discountRate :: real
  inflationRate :: real
  taxRate :: real

record InvestmentData =
  inv_category :: string
  inv_amount :: real
  inv_year :: int
  inv_usefulLife :: int
  inv_salvageValue :: real
  inv_depreciationMethod :: depreciation_method
  inv_depreciationRate :: real

record ScheduleRow =
  sched_year :: int
  sched_quantity :: real

record ProductData =
  prod_unitPrice :: real
  priceEscalation :: real
  productionSchedule :: "ScheduleRow list"

datatype cost_type = fixed | variable

record CostData =
  cost_category :: string
  costType :: cost_type
  cost_amount :: real
  unitCost :: real
  escalationRate :: real
  startYear :: int

record CashFlowYear =
  cf_year :: int
  operatingInflow :: real
  operatingOutflow :: real
  investingOutflow :: real
  financingInflow :: real
  financingOutflow :: real
  netCashFlow :: real
  cumulativeCashFlow :: real
  discountedCashFlow :: real

record IncomeStatementYear =
  is_year :: int
  is_revenue :: real
  costOfGoodsSold :: real
  grossProfit :: real
  is_operatingExpenses :: real
  is_depreciation :: real
  operatingIncome :: real
  interestExpense :: real
  taxableIncome :: real
  taxes :: real
  netIncome :: real

record BalanceSheetYear =
  bs_year :: int
  cash :: real
  receivables :: real
  inventory :: real
  currentAssets :: real
  fixedAssets :: real
  accumulatedDepreciation :: real
  netFixedAssets :: real
  totalAssets :: real
  payables :: real
  currentLiabilities :: real
  longTermDebt :: real
  totalLiabilities :: real
  shareCapital :: real
  retainedEarnings :: real
  totalEquity :: real

text \<open>
  The blocks that \<open>generateCashFlows\<close> and \<open>generateIncomeStatements\<close> both contain,
  one definition for each block: revenue of an operating year, an escalated cost,
  depreciation of a year over the depreciable investments.
\<close>

definition operatingRevenue :: "ProductData list \<Rightarrow> int \<Rightarrow> real" where
  "operatingRevenue products operatingYear =
     foldl (\<lambda>revenue product.
              case find (\<lambda>s. sched_year s = operatingYear) (productionSchedule product) of
                None \<Rightarrow> revenue
              | Some schedule \<Rightarrow>
                  (let escalatedPrice = prod_unitPrice product *
                         (1 + priceEscalation product / 100) ^ nat (operatingYear - 1)
                   in revenue + sched_quantity schedule * escalatedPrice))
       0 products"

definition escalatedAmount :: "CostData \<Rightarrow> int \<Rightarrow> real" where
  "escalatedAmount cost operatingYear =
     (let yearsSinceStart = operatingYear - startYear cost
      in cost_amount cost * (1 + escalationRate cost / 100) ^ nat yearsSinceStart)"

definition yearDepreciation :: "InvestmentData list \<Rightarrow> int \<Rightarrow> real" where
  "yearDepreciation investments year =
     foldl (\<lambda>depreciation inv.
              if inv_category inv \<noteq> ''land'' \<and> inv_category inv \<noteq> ''working_capital''
              then depreciation +
                   calculateDepreciation (inv_amount inv) (inv_salvageValue inv)
                     (inv_usefulLife inv) (inv_depreciationRate inv)
                     (inv_depreciationMethod inv) year (inv_year inv)
              else depreciation)
       0 investments"

definition cashFlowYear ::
  "ProjectData \<Rightarrow> InvestmentData list \<Rightarrow> ProductData list \<Rightarrow> CostData list \<Rightarrow>
   FinancingData list \<Rightarrow> real \<Rightarrow> int \<Rightarrow> CashFlowYear" where
  "cashFlowYear project investments products costs financing cumulative year =
     (let revenue = (if year > constructionYears project
                     then operatingRevenue products (year - constructionYears project) else 0);
          operatingCosts =
            (if year > constructionYears project
             then (let operatingYear = year - constructionYears project
                   in foldl (\<lambda>total cost. if operatingYear \<ge> startYear cost
                                            then total + escalatedAmount cost operatingYear
                                            else total) 0 costs)
             else 0);
          yearInvestments =
            foldl (\<lambda>sum inv. sum + inv_amount inv) 0
              (filter (\<lambda>inv. inv_year inv = year) investments);
          financingInflows =
            foldl (\<lambda>sum f. sum + fin_amount f) 0
              (filter (\<lambda>f. fin_disbursementYear f = year) financing);
          debtService = calculateDebtService financing year;
          depreciation = yearDepreciation investments year;
          taxableIncome' = revenue - operatingCosts - depreciation - ds_interest debtService;
          taxes' = (if taxableIncome' > 0 then taxableIncome' * (taxRate project / 100) else 0);
          operatingInflow' = revenue;
          operatingOutflow' = operatingCosts + taxes';
          investingOutflow' = yearInvestments;
          financingInflow' = financingInflows;
          financingOutflow' = ds_principal debtService + ds_interest debtService;
          netCashFlow' = operatingInflow' - operatingOutflow' - investingOutflow'
                           + financingInflow' - financingOutflow';
          discountFactor = (1 + proj_discountRate project / 100) ^ nat year
      in \<lparr> cf_year = year, operatingInflow = operatingInflow',
           operatingOutflow = operatingOutflow', investingOutflow = investingOutflow',
           financingInflow = financingInflow', financingOutflow = financingOutflow',
           netCashFlow = netCashFlow', cumulativeCashFlow = cumulative + netCashFlow',
           discountedCashFlow = netCashFlow' / discountFactor \<rparr>)"

text \<open>
  The loop \<open>for (year = 0; year <= totalYears; year++)\<close> of \<open>generateCashFlows\<close>,
  over the list of its years, with the running \<open>cumulativeCashFlow\<close>.
\<close>

fun cashFlows_loop ::
  "ProjectData \<Rightarrow> InvestmentData list \<Rightarrow> ProductData list \<Rightarrow> CostData list \<Rightarrow>
   FinancingData list \<Rightarrow> real \<Rightarrow> int list \<Rightarrow> CashFlowYear list" where
  "cashFlows_loop project investments products costs financing cumulative [] = []"
| "cashFlows_loop project investments products costs financing cumulative (year # years) =
     (let row = cashFlowYear project investments products costs financing cumulative year
      in row # cashFlows_loop project investments products costs financing
                 (cumulativeCashFlow row) years)"

definition generateCashFlows ::
  "ProjectData \<Rightarrow> InvestmentData list \<Rightarrow> ProductData list \<Rightarrow> CostData list \<Rightarrow>
   FinancingData list \<Rightarrow> CashFlowYear list" where
  "generateCashFlows project investments products costs financing =
     (let totalYears = constructionYears project + operationYears project
      in cashFlows_loop project investments products costs financing 0 [0..totalYears])"

definition incomeStatementYear ::
  "ProjectData \<Rightarrow> InvestmentData list \<Rightarrow> ProductData list \<Rightarrow> CostData list \<Rightarrow>
   FinancingData list \<Rightarrow> int \<Rightarrow> IncomeStatementYear" where
  "incomeStatementYear project investments products costs financing year =
     (if year \<le> constructionYears project
      then \<lparr> is_year = year, is_revenue = 0, costOfGoodsSold = 0, grossProfit = 0,
             is_operatingExpenses = 0, is_depreciation = 0, operatingIncome = 0,
             interestExpense = 0, taxableIncome = 0, taxes = 0, netIncome = 0 \<rparr>
      else
        let operatingYear = year - constructionYears project;
            revenue = operatingRevenue products operatingYear;
            cogs = foldl (\<lambda>total cost. if operatingYear \<ge> startYear cost \<and> costType cost = variable
                                        then total + escalatedAmount cost operatingYear
                                        else total) 0 costs;
            operatingExpenses =
              foldl (\<lambda>total cost. if operatingYear \<ge> startYear cost \<and> costType cost \<noteq> variable
                                   then total + escalatedAmount cost operatingYear
                                   else total) 0 costs;
            depreciation = yearDepreciation investments year;
            grossProfit' = revenue - cogs;
            operatingIncome' = grossProfit' - operatingExpenses - depreciation;
            debtService = calculateDebtService financing year;
            interestExpense' = ds_interest debtService;
            taxableIncome' = operatingIncome' - interestExpense';
            taxes' = (if taxableIncome' > 0 then taxableIncome' * (taxRate project / 100) else 0);
            netIncome' = taxableIncome' - taxes'
        in \<lparr> is_year = year, is_revenue = revenue, costOfGoodsSold = cogs,
             grossProfit = grossProfit', is_operatingExpenses = operatingExpenses,
             is_depreciation = depreciation, operatingIncome = operatingIncome',
             interestExpense = interestExpense', taxableIncome = taxableIncome',
             taxes = taxes', netIncome = netIncome' \<rparr>)"

definition generateIncomeStatements ::
  "ProjectData \<Rightarrow> InvestmentData list \<Rightarrow> ProductData list \<Rightarrow> CostData list \<Rightarrow>
   FinancingData list \<Rightarrow> IncomeStatementYear list" where
  "generateIncomeStatements project investments products costs financing =
     (let totalYears = constructionYears project + operationYears project
      in map (incomeStatementYear project investments products costs financing) [1..totalYears])"

text \<open>
  The remaining principal of the loans in a balance-sheet year (the loop over
  \<open>financing\<close> inside \<open>generateBalanceSheets\<close>).
\<close>

definition longTermDebtOf :: "FinancingData list \<Rightarrow> int \<Rightarrow> real" where
  "longTermDebtOf financing year =
     foldl (\<lambda>debt f.
              if fin_type f = ''loan''
              then (let yearsSinceStart = year - fin_repaymentStartYear f
                    in if yearsSinceStart < 0 then debt + fin_amount f
                       else if yearsSinceStart < fin_termYears f
                       then (let principalPayment =
                                   fin_amount f / real_of_int (fin_termYears f - fin_gracePeriod f);
                                 principalPaid =
                                   real_of_int (max 0 (yearsSinceStart - fin_gracePeriod f))
                                     * principalPayment
                             in debt + max 0 (fin_amount f - principalPaid))
                       else debt)
              else debt)
       0 financing"

text \<open>
  One pass of the loop of \<open>generateBalanceSheets\<close>: from the values of
  \<open>retainedEarnings\<close> and \<open>cash\<close> before the pass to the row pushed and their values
  after it.
\<close>

definition balanceSheetYear ::
  "InvestmentData list \<Rightarrow> FinancingData list \<Rightarrow> IncomeStatementYear list \<Rightarrow>
   real \<Rightarrow> real \<Rightarrow> int \<Rightarrow> BalanceSheetYear" where
  "balanceSheetYear investments financing incomeStatements retained cash0 year =
     (let fixedAssets' =
            foldl (\<lambda>sum inv. sum + inv_amount inv) 0
              (filter (\<lambda>inv. inv_year inv \<le> year \<and> inv_category inv \<noteq> ''working_capital'')
                 investments);
          accumulatedDepreciation' =
            foldl (\<lambda>acc inv.
                     if inv_year inv \<le> year \<and> inv_category inv \<noteq> ''land''
                        \<and> inv_category inv \<noteq> ''working_capital''
                     then acc + calculateAccumulatedDepreciation (inv_amount inv)
                                  (inv_salvageValue inv) (inv_usefulLife inv)
                                  (inv_depreciationRate inv) (inv_depreciationMethod inv)
                                  year (inv_year inv)
                     else acc)
              0 investments;
          netFixedAssets' = fixedAssets' - accumulatedDepreciation';
          workingCapital =
            foldl (\<lambda>sum inv. sum + inv_amount inv) 0
              (filter (\<lambda>inv. inv_year inv \<le> year \<and> inv_category inv = ''working_capital'')
                 investments);
          receivables' = 0;
          inventory' = workingCapital * (6 / 10);
          currentAssets' = cash0 + receivables' + inventory';
          totalAssets' = currentAssets' + netFixedAssets';
          payables' = 0;
          currentLiabilities' = payables';
          longTermDebt' = longTermDebtOf financing year;
          totalLiabilities' = currentLiabilities' + longTermDebt';
          shareCapital' =
            foldl (\<lambda>sum f. sum + fin_amount f) 0
              (filter (\<lambda>f. fin_type f = ''equity'' \<and> fin_disbursementYear f \<le> year) financing);
          retainedEarnings' =
            (case find (\<lambda>is. is_year is = year) incomeStatements of
               None \<Rightarrow> retained
             | Some yearIncome \<Rightarrow> retained + netIncome yearIncome);
          totalEquity' = shareCapital' + retainedEarnings';
          plug = totalAssets' - netFixedAssets' - receivables' - inventory';
          cash' = (if plug < 0 then 0 else plug)
      in \<lparr> bs_year = year, cash = cash', receivables = receivables', inventory = inventory',
           currentAssets = cash' + receivables' + inventory', fixedAssets = fixedAssets',
           accumulatedDepreciation = accumulatedDepreciation',
           netFixedAssets = netFixedAssets',
           totalAssets = (cash' + receivables' + inventory') + netFixedAssets',
           payables = payables', currentLiabilities = currentLiabilities',
           longTermDebt = longTermDebt', totalLiabilities = totalLiabilities',
           shareCapital = shareCapital', retainedEarnings = retainedEarnings',
           totalEquity = totalEquity' \<rparr>)"

fun balanceSheets_loop ::
  "InvestmentData list \<Rightarrow> FinancingData list \<Rightarrow> IncomeStatementYear list \<Rightarrow>
   real \<Rightarrow> real \<Rightarrow> int list \<Rightarrow> BalanceSheetYear list" where
  "balanceSheets_loop investments financing incomeStatements retained cash0 [] = []"
| "balanceSheets_loop investments financing incomeStatements retained cash0 (year # years) =
     (let row = balanceSheetYear investments financing incomeStatements retained cash0 year
      in row # balanceSheets_loop investments financing incomeStatements
                 (retainedEarnings row) (cash row) years)"

text \<open>
  \<open>generateBalanceSheets\<close> takes \<open>products\<close> and \<open>costs\<close> and reads neither.
\<close>

definition generateBalanceSheets ::
  "ProjectData \<Rightarrow> InvestmentData list \<Rightarrow> ProductData list \<Rightarrow> CostData list \<Rightarrow>
   FinancingData list \<Rightarrow> IncomeStatementYear list \<Rightarrow> BalanceSheetYear list" where
  "generateBalanceSheets project investments products costs financing incomeStatements =
     (let totalYears = constructionYears project + operationYears project
      in balanceSheets_loop investments financing incomeStatements 0 0 [0..totalYears])"

section \<open>Sensitivity driver (sensitivity.ts)\<close>

record SensitivityResult =
  sr_variable :: string
  sr_variation :: real
  sr_npv :: real
  sr_irr :: real

text \<open>
  \<open>variations\<close> is \<open>None\<close> when the caller passes no array: the driver then takes its
  own default list.
\<close>

record SensitivityConfig =
  cfg_variables :: "string list"
  cfg_variations :: "real list option"

record ProjectInputs =
  pi_revenue :: "real list"
  pi_operatingCosts :: "real list"
  investmentCost :: real
  pi_discountRate :: real
  pi_cashFlows :: "real list"

definition applyVariation :: "ProjectInputs \<Rightarrow> string \<Rightarrow> real \<Rightarrow> ProjectInputs" where
  "applyVariation inputs var variation =
     (let factor = 1 + variation / 100
      in if var = ''revenue'' \<or> var = ''price'' \<or> var = ''sales''
         then inputs\<lparr> pi_revenue := map (\<lambda>r. r * factor) (pi_revenue inputs) \<rparr>
         else if var = ''operatingCosts'' \<or> var = ''costs''
         then inputs\<lparr> pi_operatingCosts := map (\<lambda>c. c * factor) (pi_operatingCosts inputs) \<rparr>
         else if var = ''investment'' \<or> var = ''investmentCost''
         then inputs\<lparr> investmentCost := investmentCost inputs * factor \<rparr>
         else if var = ''discountRate''
         then inputs\<lparr> pi_discountRate := pi_discountRate inputs * factor \<rparr>
         else inputs)"

text \<open>
  \<open>recalculateCashFlows\<close> indexes both arrays by the positions of \<open>revenue\<close>; where
  \<open>operatingCosts\<close> is shorter the source reads \<open>undefined\<close>.
\<close>

definition recalculateCashFlows :: "ProjectInputs \<Rightarrow> real list" where
  "recalculateCashFlows inputs =
     (- investmentCost inputs) #
     map (\<lambda>i. pi_revenue inputs ! i - pi_operatingCosts inputs ! i)
       [0..<length (pi_revenue inputs)]"

definition sensitivityResult :: "ProjectInputs \<Rightarrow> string \<Rightarrow> real \<Rightarrow> SensitivityResult" where
  "sensitivityResult baseInputs var variation =
     (let modifiedInputs = applyVariation baseInputs var variation;
          modifiedCashFlows = recalculateCashFlows modifiedInputs
      in \<lparr> sr_variable = var, sr_variation = variation,
           sr_npv = calculateNPV modifiedCashFlows (pi_discountRate modifiedInputs),
           sr_irr = calculateIRR modifiedCashFlows (1 / 10) \<rparr>)"

definition calculateSensitivity :: "ProjectInputs \<Rightarrow> SensitivityConfig \<Rightarrow> SensitivityResult list" where
  "calculateSensitivity baseInputs config =
     (let variations = (case cfg_variations config of
                          Some vs \<Rightarrow> vs
                        | None \<Rightarrow> [- 20, - 10, - 5, 0, 5, 10, 20])
      in concat (map (\<lambda>var. map (sensitivityResult baseInputs var) variations)
                  (cfg_variables config)))"

record TornadoRow =
  tr_variable :: string
  lowNPV :: real
  baseNPV :: real
  highNPV :: real
  impact :: real

text \<open>
  The \<open>Map\<close> of \<open>generateTornadoData\<close> as an association list in insertion order: a
  result of a variable seen before is appended to that variable's array, a new variable
  is added at the end.
\<close>

fun group_add :: "SensitivityResult \<Rightarrow> (string \<times> SensitivityResult list) list \<Rightarrow>
                  (string \<times> SensitivityResult list) list" where
  "group_add r [] = [(sr_variable r, [r])]"
| "group_add r ((k, rs) # grouped) =
     (if k = sr_variable r then (k, rs @ [r]) # grouped else (k, rs) # group_add r grouped)"

definition group_results :: "SensitivityResult list \<Rightarrow> (string \<times> SensitivityResult list) list" where
  "group_results sensitivityResults = foldl (\<lambda>grouped r. group_add r grouped) [] sensitivityResults"

text \<open>
  The callback of \<open>grouped.forEach\<close>: the rows it pushes (none or one).
  \<open>Array.prototype.sort\<close> is stable, as \<open>sort_key\<close> is.
\<close>

definition tornado_rows :: "string \<times> SensitivityResult list \<Rightarrow> TornadoRow list" where
  "tornado_rows entry =
     (let sorted = sort_key sr_variation (snd entry)
      in case find (\<lambda>r. sr_variation r = 0) sorted of
           None \<Rightarrow> []
         | Some baseResult \<Rightarrow>
             (if sorted = [] then []
              else let lowResult = hd sorted;
                       highResult = last sorted
                   in [\<lparr> tr_variable = fst entry, lowNPV = sr_npv lowResult,
                         baseNPV = sr_npv baseResult, highNPV = sr_npv highResult,
                         impact = \<bar>sr_npv highResult - sr_npv lowResult\<bar> \<rparr>]))"

definition generateTornadoData :: "SensitivityResult list \<Rightarrow> TornadoRow list" where
  "generateTornadoData sensitivityResults =
     sort_key (\<lambda>row. - impact row)
       (concat (map tornado_rows (group_results sensitivityResults)))"

section \<open>Callers of the engine (routes/analysis.ts, routes/scenarios.ts)\<close>

text \<open>
  The sensitivity route: it runs the full projection once on the stored project and
  hands the driver the operating inflows and outflows of the years after year 0, the sum
  of all investment amounts and the discount rate.
\<close>

definition sensitivityInputs ::
  "ProjectData \<Rightarrow> InvestmentData list \<Rightarrow> ProductData list \<Rightarrow> CostData list \<Rightarrow>
   FinancingData list \<Rightarrow> ProjectInputs" where
  "sensitivityInputs project investments products costs financing =
     (let cashFlows = generateCashFlows project investments products costs financing
      in \<lparr> pi_revenue = map operatingInflow (drop 1 cashFlows),
           pi_operatingCosts = map operatingOutflow (drop 1 cashFlows),
           investmentCost = foldl (\<lambda>sum inv. sum + inv_amount inv) 0 investments,
           pi_discountRate = proj_discountRate project,
           pi_cashFlows = map netCashFlow cashFlows \<rparr>)"

definition sensitivityRoute ::
  "ProjectData \<Rightarrow> InvestmentData list \<Rightarrow> ProductData list \<Rightarrow> CostData list \<Rightarrow>
   FinancingData list \<Rightarrow> string list \<Rightarrow> SensitivityResult list" where
  "sensitivityRoute project investments products costs financing variables =
     calculateSensitivity (sensitivityInputs project investments products costs financing)
       \<lparr> cfg_variables = variables,
         cfg_variations = Some [- 20, - 15, - 10, - 5, 0, 5, 10, 15, 20] \<rparr>"

text \<open>
  The scenario route adjusts the stored project by a map from variable names to
  percentages and reruns the full projection. \<open>a || b\<close> on two lookups takes the first
  when it is present and not 0, and \<open>if (adj)\<close> applies an adjustment only when it is
  present and not 0.
\<close>

definition js_or :: "real option \<Rightarrow> real option \<Rightarrow> real option" where
  "js_or a b = (case a of Some x \<Rightarrow> (if x \<noteq> 0 then Some x else b) | None \<Rightarrow> b)"

definition adjusted :: "real option \<Rightarrow> real \<Rightarrow> real" where
  "adjusted adj x = (case adj of Some d \<Rightarrow> (if d \<noteq> 0 then x * (1 + d / 100) else x) | None \<Rightarrow> x)"

definition adjustProducts :: "(string \<rightharpoonup> real) \<Rightarrow> ProductData list \<Rightarrow> ProductData list" where
  "adjustProducts adjustments products =
     map (\<lambda>prod. prod\<lparr> prod_unitPrice :=
                         adjusted (js_or (adjustments ''price'') (adjustments ''revenue''))
                           (prod_unitPrice prod),
                       productionSchedule :=
                         map (\<lambda>s. s\<lparr> sched_quantity :=
                                      adjusted (js_or (adjustments ''quantity'') (adjustments ''sales''))
                                        (sched_quantity s) \<rparr>)
                           (productionSchedule prod) \<rparr>)
       products"

definition adjustCosts :: "(string \<rightharpoonup> real) \<Rightarrow> CostData list \<Rightarrow> CostData list" where
  "adjustCosts adjustments costs =
     map (\<lambda>cost. cost\<lparr> cost_amount :=
                         adjusted (js_or (adjustments ''costs'') (adjustments ''operatingCosts''))
                           (cost_amount cost) \<rparr>)
       costs"

definition adjustInvestments :: "(string \<rightharpoonup> real) \<Rightarrow> InvestmentData list \<Rightarrow> InvestmentData list" where
  "adjustInvestments adjustments investments =
     map (\<lambda>inv. inv\<lparr> inv_amount := adjusted (adjustments ''investment'') (inv_amount inv) \<rparr>)
       investments"

definition scenarioNetCashFlows ::
  "(string \<rightharpoonup> real) \<Rightarrow> ProjectData \<Rightarrow> InvestmentData list \<Rightarrow> ProductData list \<Rightarrow>
   CostData list \<Rightarrow> FinancingData list \<Rightarrow> real list" where
  "scenarioNetCashFlows adjustments project investments products costs financing =
     map netCashFlow
       (generateCashFlows project (adjustInvestments adjustments investments)
          (adjustProducts adjustments products) (adjustCosts adjustments costs) financing)"

section \<open>Double-precision arithmetic\<close>

text \<open>
  A JavaScript number is an IEEE 754 binary64 value, and every arithmetic operation
  returns the exact result rounded to the nearest such value, ties going to the even
  significand. \<open>double_round\<close> is that rounding on the reals: a number \<open>x\<close> with
  \<open>2 powi E \<le> \<bar>x\<bar> < 2 powi (E + 1)\<close> is rounded to a multiple of \<open>2 powi (E - 52)\<close> (53
  significant bits), and below \<open>2 powi (- 1022)\<close> to a multiple of \<open>2 powi (- 1074)\<close> (gradual
  underflow). Overflow is not modelled: the functions below describe the runs of the
  source in which every intermediate result stays below \<open>2 ^ 1024\<close> in magnitude, so
  that \<open>Infinity\<close> and \<open>NaN\<close> do not arise. \<open>double_u\<close> is the unit roundoff
  \<open>2 powi (- 53)\<close> and \<open>double_min\<close> the smallest positive normal number.
\<close>

definition round_half_even :: "real \<Rightarrow> int" where
  "round_half_even x =
     (let f = \<lfloor>x\<rfloor>; d = x - real_of_int f
      in if d < 1 / 2 then f else if d > 1 / 2 then f + 1 else if even f then f else f + 1)"

definition double_exponent :: "real \<Rightarrow> int" where
  "double_exponent x = max \<lfloor>log 2 \<bar>x\<bar>\<rfloor> (- 1022) - 52"

definition double_round :: "real \<Rightarrow> real" where
  "double_round x =
     (if x = 0 then 0
      else real_of_int (round_half_even (x / 2 powi double_exponent x))
             * 2 powi double_exponent x)"

definition double_u :: real where
  "double_u = 1 / 2 ^ 53"

definition double_min :: real where
  "double_min = 2 powi (- 1022)"

text \<open>
  \<open>calculateAmortizationSchedule\<close> in double precision: the source function with
  \<open>double_round\<close> after each of its operations \<open>annualRate / 100\<close>,
  \<open>principal / (termYears - gracePeriod)\<close>, \<open>balance * rate\<close>,
  \<open>principalPaid + interestPayment\<close> and \<open>balance - principalPaid\<close>. The
  difference \<open>termYears - gracePeriod\<close> of two integers is exact.
\<close>

fun amortization_rows_d ::
  "real \<Rightarrow> real \<Rightarrow> int \<Rightarrow> real \<Rightarrow> int \<Rightarrow> nat \<Rightarrow> AmortizationSchedule list" where
  "amortization_rows_d rate principalPayment gracePeriod balance year 0 = []"
| "amortization_rows_d rate principalPayment gracePeriod balance year (Suc n) =
     (let interestPayment = double_round (balance * rate);
          principalPaid = (if year > gracePeriod then principalPayment else 0);
          totalPayment = double_round (principalPaid + interestPayment);
          endingBal = double_round (balance - principalPaid)
      in \<lparr> am_year = year, am_beginningBalance = balance, am_payment = totalPayment,
           am_principal = principalPaid, am_interest = interestPayment,
           am_endingBalance = max 0 endingBal \<rparr>
         # amortization_rows_d rate principalPayment gracePeriod endingBal (year + 1) n)"

definition calculateAmortizationSchedule_d ::
  "real \<Rightarrow> real \<Rightarrow> int \<Rightarrow> int \<Rightarrow> AmortizationSchedule list" where
  "calculateAmortizationSchedule_d principal' annualRate termYears gracePeriod =
     (let rate = double_round (annualRate / 100);
          principalPayment = double_round (principal' / real_of_int (termYears - gracePeriod))
      in amortization_rows_d rate principalPayment gracePeriod principal' 1 (nat termYears))"

text \<open>
  The number of rows that repay principal (rows with \<open>year > gracePeriod\<close>) among the
  \<open>n\<close> rows that start at year \<open>y\<close>.
\<close>

definition paying_rows :: "int \<Rightarrow> int \<Rightarrow> nat \<Rightarrow> int" where
  "paying_rows g y n = max 0 (y + int n - max y (g + 1))"

text \<open>
  The depreciation kernel in double precision, as far as the balance sheet calls it.
\<close>

definition straightLineDepreciation_d :: "real \<Rightarrow> real \<Rightarrow> int \<Rightarrow> real" where
  "straightLineDepreciation_d cost salvageValue usefulLife =
     (if usefulLife \<le> 0 then 0
      else double_round (double_round (cost - salvageValue) / real_of_int usefulLife))"

fun db_bookValue_d :: "real \<Rightarrow> real \<Rightarrow> real \<Rightarrow> nat \<Rightarrow> real" where
  "db_bookValue_d bookValue depreciationRate salvageValue 0 = bookValue"
| "db_bookValue_d bookValue depreciationRate salvageValue (Suc n) =
     (let depreciation = double_round (bookValue * depreciationRate);
          bv = double_round (bookValue - depreciation)
      in if bv \<le> salvageValue then salvageValue
         else db_bookValue_d bv depreciationRate salvageValue n)"

definition decliningBalanceDepreciation_d :: "real \<Rightarrow> real \<Rightarrow> real \<Rightarrow> int \<Rightarrow> int \<Rightarrow> real" where
  "decliningBalanceDepreciation_d cost salvageValue rate year usefulLife =
     (if year > usefulLife then 0
      else let depreciationRate = double_round (rate / 100);
               bookValue = db_bookValue_d cost depreciationRate salvageValue (nat (year - 1))
           in if bookValue \<le> salvageValue then 0
              else min (double_round (bookValue * depreciationRate))
                       (double_round (bookValue - salvageValue)))"

definition calculateDepreciation_d ::
  "real \<Rightarrow> real \<Rightarrow> int \<Rightarrow> real \<Rightarrow> depreciation_method \<Rightarrow> int \<Rightarrow> int \<Rightarrow> real" where
  "calculateDepreciation_d cost salvageValue usefulLife depreciationRate method year purchaseYear =
     (let yearsSincePurchase = year - purchaseYear
      in if yearsSincePurchase < 0 \<or> yearsSincePurchase \<ge> usefulLife then 0
         else case method of
                straight_line \<Rightarrow> straightLineDepreciation_d cost salvageValue usefulLife
              | declining_balance \<Rightarrow>
                  decliningBalanceDepreciation_d cost salvageValue depreciationRate
                    (yearsSincePurchase + 1) usefulLife
              | none \<Rightarrow> 0)"

definition calculateAccumulatedDepreciation_d ::
  "real \<Rightarrow> real \<Rightarrow> int \<Rightarrow> real \<Rightarrow> depreciation_method \<Rightarrow> int \<Rightarrow> int \<Rightarrow> real" where
  "calculateAccumulatedDepreciation_d cost salvageValue usefulLife depreciationRate method
       currentYear purchaseYear =
     (let accumulated =
            foldl (\<lambda>acc year. double_round
                                 (acc + calculateDepreciation_d cost salvageValue usefulLife
                                          depreciationRate method year purchaseYear))
              0 [purchaseYear..currentYear]
      in min accumulated (double_round (cost - salvageValue)))"

text \<open>
  \<open>generateBalanceSheets\<close> in double precision. \<open>0.6\<close> is the double nearest to
  \<open>6 / 10\<close>; \<open>cash + receivables + inventory\<close> associates to the left, as does
  \<open>totalAssets - netFixedAssets - receivables - inventory\<close>.
\<close>

definition longTermDebtOf_d :: "FinancingData list \<Rightarrow> int \<Rightarrow> real" where
  "longTermDebtOf_d financing year =
     foldl (\<lambda>debt f.
              if fin_type f = ''loan''
              then (let yearsSinceStart = year - fin_repaymentStartYear f
                    in if yearsSinceStart < 0 then double_round (debt + fin_amount f)
                       else if yearsSinceStart < fin_termYears f
                       then (let principalPayment =
                                   double_round
                                     (fin_amount f
                                        / real_of_int (fin_termYears f - fin_gracePeriod f));
                                 principalPaid =
                                   double_round
                                     (real_of_int (max 0 (yearsSinceStart - fin_gracePeriod f))
                                        * principalPayment)
                             in double_round
                                  (debt + max 0 (double_round (fin_amount f - principalPaid))))
                       else debt)
              else debt)
       0 financing"

definition balanceSheetYear_d ::
  "InvestmentData list \<Rightarrow> FinancingData list \<Rightarrow> IncomeStatementYear list \<Rightarrow>
   real \<Rightarrow> real \<Rightarrow> int \<Rightarrow> BalanceSheetYear" where
  "balanceSheetYear_d investments financing incomeStatements retained cash0 year =
     (let fixedAssets' =
            foldl (\<lambda>sum inv. double_round (sum + inv_amount inv)) 0
              (filter (\<lambda>inv. inv_year inv \<le> year \<and> inv_category inv \<noteq> ''working_capital'')
                 investments);
          accumulatedDepreciation' =
            foldl (\<lambda>acc inv.
                     if inv_year inv \<le> year \<and> inv_category inv \<noteq> ''land''
                        \<and> inv_category inv \<noteq> ''working_capital''
                     then double_round
                            (acc + calculateAccumulatedDepreciation_d (inv_amount inv)
                                     (inv_salvageValue inv) (inv_usefulLife inv)
                                     (inv_depreciationRate inv) (inv_depreciationMethod inv)
                                     year (inv_year inv))
                     else acc)
              0 investments;
          netFixedAssets' = double_round (fixedAssets' - accumulatedDepreciation');
          workingCapital =
            foldl (\<lambda>sum inv. double_round (sum + inv_amount inv)) 0
              (filter (\<lambda>inv. inv_year inv \<le> year \<and> inv_category inv = ''working_capital'')
                 investments);
          receivables' = 0;
          inventory' = double_round (workingCapital * double_round (6 / 10));
          currentAssets' = double_round (double_round (cash0 + receivables') + inventory');
          totalAssets' = double_round (currentAssets' + netFixedAssets');
          payables' = 0;
          currentLiabilities' = payables';
          longTermDebt' = longTermDebtOf_d financing year;
          totalLiabilities' = double_round (currentLiabilities' + longTermDebt');
          shareCapital' =
            foldl (\<lambda>sum f. double_round (sum + fin_amount f)) 0
              (filter (\<lambda>f. fin_type f = ''equity'' \<and> fin_disbursementYear f \<le> year) financing);
          retainedEarnings' =
            (case find (\<lambda>is. is_year is = year) incomeStatements of
               None \<Rightarrow> retained
             | Some yearIncome \<Rightarrow> double_round (retained + netIncome yearIncome));
          totalEquity' = double_round (shareCapital' + retainedEarnings');
          plug = double_round
                   (double_round (double_round (totalAssets' - netFixedAssets') - receivables')
                      - inventory');
          cash' = (if plug < 0 then 0 else plug)
      in \<lparr> bs_year = year, cash = cash', receivables = receivables', inventory = inventory',
           currentAssets = double_round (double_round (cash' + receivables') + inventory'),
           fixedAssets = fixedAssets',
           accumulatedDepreciation = accumulatedDepreciation',
           netFixedAssets = netFixedAssets',
           totalAssets =
             double_round
               (double_round (double_round (cash' + receivables') + inventory')
                  + netFixedAssets'),
           payables = payables', currentLiabilities = currentLiabilities',
           longTermDebt = longTermDebt', totalLiabilities = totalLiabilities',
           shareCapital = shareCapital', retainedEarnings = retainedEarnings',
           totalEquity = totalEquity' \<rparr>)"

fun balanceSheets_loop_d ::
  "InvestmentData list \<Rightarrow> FinancingData list \<Rightarrow> IncomeStatementYear list \<Rightarrow>
   real \<Rightarrow> real \<Rightarrow> int list \<Rightarrow> BalanceSheetYear list" where
  "balanceSheets_loop_d investments financing incomeStatements retained cash0 [] = []"
| "balanceSheets_loop_d investments financing incomeStatements retained cash0 (year # years) =
     (let row = balanceSheetYear_d investments financing incomeStatements retained cash0 year
      in row # balanceSheets_loop_d investments financing incomeStatements
                 (retainedEarnings row) (cash row) years)"

definition generateBalanceSheets_d ::
  "ProjectData \<Rightarrow> InvestmentData list \<Rightarrow> ProductData list \<Rightarrow> CostData list \<Rightarrow>
   FinancingData list \<Rightarrow> IncomeStatementYear list \<Rightarrow> BalanceSheetYear list" where
  "generateBalanceSheets_d project investments products costs financing incomeStatements =
     (let totalYears = constructionYears project + operationYears project
      in balanceSheets_loop_d investments financing incomeStatements 0 0 [0..totalYears])"

text \<open>
  The value that one pass of the loop assigns to \<open>cash\<close>, as a function of the three
  numbers it is computed from: the previous \<open>cash\<close>, \<open>inventory\<close> and
  \<open>netFixedAssets\<close> (\<open>receivables\<close> is the constant 0).
\<close>

definition cashPlug_d :: "real \<Rightarrow> real \<Rightarrow> real \<Rightarrow> real" where
  "cashPlug_d cash0 inventory' netFixedAssets' =
     (let currentAssets' = double_round (double_round (cash0 + 0) + inventory');
          totalAssets' = double_round (currentAssets' + netFixedAssets');
          plug = double_round
                   (double_round (double_round (totalAssets' - netFixedAssets') - 0)
                      - inventory')
      in if plug < 0 then 0 else plug)"

section \<open>Reference formulas and sample inputs\<close>

text \<open>
  The series the sensitivity driver evaluates for a pair of a variable and a variation,
  written over the unadjusted projection: the total investment as the only entry of year
  0, and operating inflow minus operating outflow for each later year, with the factor
  \<open>1 + variation / 100\<close> on the component that the variable names.
\<close>

definition variationFactor :: "string list \<Rightarrow> string \<Rightarrow> real \<Rightarrow> real" where
  "variationFactor names var variation = (if var \<in> set names then 1 + variation / 100 else 1)"

definition driverSeries :: "CashFlowYear list \<Rightarrow> real \<Rightarrow> string \<Rightarrow> real \<Rightarrow> real list" where
  "driverSeries cashFlows totalInvestment var variation =
     (- (totalInvestment * variationFactor [''investment'', ''investmentCost''] var variation)) #
     map (\<lambda>cf. operatingInflow cf * variationFactor [''revenue'', ''price'', ''sales''] var variation
               - operatingOutflow cf * variationFactor [''operatingCosts'', ''costs''] var variation)
       (drop 1 cashFlows)"

text \<open>
  The benefit-cost ratio in the words of the specification: every positive cash flow
  after year 0 discounted at its own year \<open>t\<close>, over the absolute value of the cash
  flow of year 0 plus every later negative cash flow discounted at its own year, and 0
  when that denominator is 0.
\<close>

definition spec_benefitCostRatio :: "real list \<Rightarrow> real \<Rightarrow> real" where
  "spec_benefitCostRatio cashFlows discountRate =
     (let years = [1..<length cashFlows];
          benefits = sum_list (map (\<lambda>t. cashFlows ! t / (1 + discountRate / 100) ^ t)
                                 (filter (\<lambda>t. cashFlows ! t > 0) years));
          costs = \<bar>cashFlows ! 0\<bar> +
                  sum_list (map (\<lambda>t. \<bar>cashFlows ! t\<bar> / (1 + discountRate / 100) ^ t)
                              (filter (\<lambda>t. cashFlows ! t < 0) years))
      in if costs = 0 then 0 else benefits / costs)"

text \<open>
  A small project that satisfies every constraint of the data model: no construction
  phase and one operating year, a machine of 1000 bought in year 0 and paid by an equity
  contribution of 1000 in year 0, one product selling 10 units at 100 in operating year
  1, no operating costs, no taxes.
\<close>

definition ex_project :: ProjectData where
  "ex_project = \<lparr> constructionYears = 0, operationYears = 1, proj_discountRate = 10,
                   inflationRate = 0, taxRate = 0 \<rparr>"

definition ex_investments :: "InvestmentData list" where
  "ex_investments = [\<lparr> inv_category = ''machinery'', inv_amount = 1000, inv_year = 0,
                        inv_usefulLife = 10, inv_salvageValue = 0,
                        inv_depreciationMethod = none, inv_depreciationRate = 0 \<rparr>]"

definition ex_products :: "ProductData list" where
  "ex_products = [\<lparr> prod_unitPrice = 100, priceEscalation = 0,
                     productionSchedule = [\<lparr> sched_year = 1, sched_quantity = 10 \<rparr>] \<rparr>]"

definition ex_financing :: "FinancingData list" where
  "ex_financing = [\<lparr> fin_type = ''equity'', fin_amount = 1000, fin_interestRate = 0,
                      fin_termYears = 0, fin_gracePeriod = 0, fin_disbursementYear = 0,
                      fin_repaymentStartYear = 1 \<rparr>]"

text \<open>
  Three sensitivity results of one cost variable: the net present value falls as the
  cost variation rises.
\<close>

definition ex_results :: "SensitivityResult list" where
  "ex_results =
     [\<lparr> sr_variable = ''costs'', sr_variation = - 10, sr_npv = 120, sr_irr = 14 \<rparr>,
      \<lparr> sr_variable = ''costs'', sr_variation = 0, sr_npv = 100, sr_irr = 12 \<rparr>,
      \<lparr> sr_variable = ''costs'', sr_variation = 10, sr_npv = 80, sr_irr = 10 \<rparr>]"

text \<open>
  A second project, for the balance sheet in double precision: no construction phase and
  one operating year, a machine of 100000 and working capital of 33333, both of year 0,
  no financing, and an income statement of year 1 with every entry 0.
\<close>

definition ex2_project :: ProjectData where
  "ex2_project = \<lparr> constructionYears = 0, operationYears = 1, proj_discountRate = 10,
                    inflationRate = 0, taxRate = 0 \<rparr>"

definition ex2_investments :: "InvestmentData list" where
  "ex2_investments =
     [\<lparr> inv_category = ''machinery'', inv_amount = 100000, inv_year = 0,
        inv_usefulLife = 10, inv_salvageValue = 0,
        inv_depreciationMethod = none, inv_depreciationRate = 0 \<rparr>,
      \<lparr> inv_category = ''working_capital'', inv_amount = 33333, inv_year = 0,
        inv_usefulLife = 10, inv_salvageValue = 0,
        inv_depreciationMethod = none, inv_depreciationRate = 0 \<rparr>]"

definition ex2_incomeStatements :: "IncomeStatementYear list" where
  "ex2_incomeStatements =
     [\<lparr> is_year = 1, is_revenue = 0, costOfGoodsSold = 0, grossProfit = 0,
        is_operatingExpenses = 0, is_depreciation = 0, operatingIncome = 0,
        interestExpense = 0, taxableIncome = 0, taxes = 0, netIncome = 0 \<rparr>]"

section \<open>Rounding\<close>

text \<open>
  The error of one rounding is at most \<open>double_u * (\<bar>x\<bar> + double_min)\<close>; a number
  with a 53-bit significand is not changed; and \<open>double_round x\<close> can be evaluated once
  the binary exponent of \<open>x\<close> is known.
\<close>

lemma round_half_even_error: "\<bar>real_of_int (round_half_even x) - x\<bar> \<le> 1 / 2"
proof -
  have "real_of_int \<lfloor>x\<rfloor> \<le> x" and "x < real_of_int \<lfloor>x\<rfloor> + 1" by linarith+
  then show ?thesis
    by (auto simp add: round_half_even_def Let_def)
qed

lemma round_half_even_of_int [simp]: "round_half_even (real_of_int k) = k"
  by (simp add: round_half_even_def)

lemma powr_two_int: "2 powr real_of_int n = (2::real) powi n"
  by (simp add: powr_real_of_int')

lemma two_powi_less_D: "(2::real) powi a < 2 powi b \<Longrightarrow> a < b"
  using power_int_increasing [of b a "2::real"] by (cases "a < b") auto

lemma floor_log2_bounds:
  assumes "x \<noteq> 0"
  shows "2 powi \<lfloor>log 2 \<bar>x\<bar>\<rfloor> \<le> \<bar>x\<bar>" and "\<bar>x\<bar> < 2 powi (\<lfloor>log 2 \<bar>x\<bar>\<rfloor> + 1)"
proof -
  have pos: "0 < \<bar>x\<bar>" using assms by simp
  have "2 powr real_of_int \<lfloor>log 2 \<bar>x\<bar>\<rfloor> \<le> \<bar>x\<bar>
        \<and> \<bar>x\<bar> < 2 powr real_of_int (\<lfloor>log 2 \<bar>x\<bar>\<rfloor> + 1)"
    using floor_log_eq_powr_iff [OF pos, of 2 "\<lfloor>log 2 \<bar>x\<bar>\<rfloor>"] by simp
  then show "2 powi \<lfloor>log 2 \<bar>x\<bar>\<rfloor> \<le> \<bar>x\<bar>" and "\<bar>x\<bar> < 2 powi (\<lfloor>log 2 \<bar>x\<bar>\<rfloor> + 1)"
    unfolding powr_two_int by simp_all
qed

lemma floor_log2_eq:
  assumes "2 powi E \<le> \<bar>x\<bar>" and "\<bar>x\<bar> < 2 powi (E + 1)"
  shows "\<lfloor>log 2 \<bar>x\<bar>\<rfloor> = E"
proof -
  have pos: "0 < \<bar>x\<bar>"
    using assms(1) zero_less_power_int [of "2::real" E] by linarith
  have "2 powr real_of_int E \<le> \<bar>x\<bar> \<and> \<bar>x\<bar> < 2 powr real_of_int (E + 1)"
    unfolding powr_two_int using assms by simp
  then show ?thesis
    using floor_log_eq_powr_iff [OF pos, of 2 E] by simp
qed

lemma double_u_pos: "0 < double_u"
  by (simp add: double_u_def)

lemma double_min_pos: "0 < double_min"
  by (simp add: double_min_def)

lemma double_round_error:
  "\<bar>double_round x - x\<bar> \<le> double_u * (\<bar>x\<bar> + double_min)"
proof (cases "x = 0")
  case True
  then show ?thesis
    using double_u_pos double_min_pos by (simp add: double_round_def)
next
  case False
  define e where "e = double_exponent x"
  define L where "L = \<lfloor>log 2 \<bar>x\<bar>\<rfloor>"
  have pe: "0 < (2::real) powi e" by simp
  have "double_round x - x = (real_of_int (round_half_even (x / 2 powi e)) - x / 2 powi e) * 2 powi e"
    using False by (simp add: double_round_def e_def algebra_simps)
  then have "\<bar>double_round x - x\<bar>
               = \<bar>real_of_int (round_half_even (x / 2 powi e)) - x / 2 powi e\<bar> * 2 powi e"
    by (simp add: abs_mult)
  also have "\<dots> \<le> 1 / 2 * 2 powi e"
    using round_half_even_error [of "x / 2 powi e"] pe by (intro mult_right_mono) simp_all
  also have "\<dots> = 2 powi (e - 1)"
    by (simp add: power_int_diff)
  finally have err: "\<bar>double_round x - x\<bar> \<le> 2 powi (e - 1)" .
  have e_max: "e - 1 = max L (- 1022) - 53"
    by (simp add: e_def L_def double_exponent_def)
  have split: "(2::real) powi (max L (- 1022) - 53) = double_u * 2 powi max L (- 1022)"
    using power_int_diff [of "2::real" "max L (- 1022)" 53] by (simp add: double_u_def)
  have "(2::real) powi max L (- 1022) \<le> \<bar>x\<bar> + double_min"
  proof (cases "L \<ge> - 1022")
    case True
    then have "(2::real) powi max L (- 1022) = 2 powi L" by (simp add: max_def)
    also have "\<dots> \<le> \<bar>x\<bar>" unfolding L_def by (rule floor_log2_bounds(1) [OF False])
    finally show ?thesis using double_min_pos by linarith
  next
    case False
    then have "(2::real) powi max L (- 1022) = double_min"
      by (simp only: double_min_def max_def) simp
    then show ?thesis by simp
  qed
  then have "double_u * 2 powi max L (- 1022) \<le> double_u * (\<bar>x\<bar> + double_min)"
    using double_u_pos by (intro mult_left_mono) simp_all
  then show ?thesis using err unfolding e_max split by (rule order_trans [rotated])
qed

lemma double_round_eval:
  assumes "2 powi E \<le> \<bar>x\<bar>" and "\<bar>x\<bar> < 2 powi (E + 1)" and "- 1022 \<le> E"
  shows "double_round x = real_of_int (round_half_even (x / 2 powi (E - 52))) * 2 powi (E - 52)"
proof -
  have "0 < (2::real) powi E" by simp
  with assms(1) have "0 < \<bar>x\<bar>" by linarith
  then have "x \<noteq> 0" by simp
  moreover have "double_exponent x = E - 52"
    using floor_log2_eq [OF assms(1,2)] assms(3) by (simp add: double_exponent_def)
  ultimately show ?thesis by (simp add: double_round_def)
qed

lemma double_round_exact:
  assumes "\<bar>k\<bar> < 2 ^ 53" and "- 1074 \<le> e"
  shows "double_round (real_of_int k * 2 powi e) = real_of_int k * 2 powi e"
proof (cases "k = 0")
  case True
  then show ?thesis by (simp add: double_round_def)
next
  case False
  define x where "x = real_of_int k * 2 powi e"
  have x0: "x \<noteq> 0" using False by (simp add: x_def)
  define d where "d = double_exponent x"
  have "\<bar>x\<bar> = real_of_int \<bar>k\<bar> * 2 powi e" by (simp add: x_def abs_mult)
  also have "\<dots> < 2 ^ 53 * 2 powi e"
    using assms(1) by (intro mult_strict_right_mono) (simp_all add: of_int_less_numeral_power_cancel_iff)
  also have "\<dots> = 2 powi (53 + e)" by (simp add: power_int_add)
  finally have "\<bar>x\<bar> < 2 powi (53 + e)" .
  with floor_log2_bounds(1) [OF x0] have "2 powi \<lfloor>log 2 \<bar>x\<bar>\<rfloor> < (2::real) powi (53 + e)" by linarith
  then have "\<lfloor>log 2 \<bar>x\<bar>\<rfloor> < 53 + e"
    by (rule two_powi_less_D)
  then have de: "d \<le> e" using assms(2) by (simp add: d_def double_exponent_def)
  then have "x / 2 powi d = real_of_int k * 2 powi (e - d)"
    by (simp add: x_def power_int_diff)
  also have "\<dots> = real_of_int (k * 2 ^ nat (e - d))"
    using de by (simp add: power_int_nonneg_exp)
  finally have "round_half_even (x / 2 powi d) = k * 2 ^ nat (e - d)"
    by (simp only: round_half_even_of_int)
  then have "double_round x = real_of_int (k * 2 ^ nat (e - d)) * 2 powi d"
    using x0 by (simp add: double_round_def d_def)
  also have "\<dots> = real_of_int k * (2 powi (e - d) * 2 powi d)"
    using de by (simp add: power_int_nonneg_exp)
  also have "\<dots> = x" by (simp add: x_def power_int_add [symmetric])
  finally show ?thesis by (simp add: x_def)
qed

lemma double_round_0: "double_round 0 = 0"
  by (simp add: double_round_def)

text \<open>
  Accumulation of rounding errors over a chain of additions and subtractions: after
  \<open>k\<close> operations on quantities bounded by \<open>C\<close> the error is at most
  \<open>((1 + double_u) ^ k - 1) * C\<close>, which is at most \<open>2 * k * double_u * C\<close> as long as
  \<open>2 * k * double_u \<le> 1\<close>.
\<close>

lemma sub_round_error:
  assumes "\<bar>b - s\<bar> \<le> E" and "\<bar>a - a'\<bar> \<le> D"
  shows "\<bar>double_round (b - a) - (s - a')\<bar>
           \<le> (1 + double_u) * (E + D) + double_u * (\<bar>s - a'\<bar> + double_min)"
proof -
  have mag: "\<bar>b - a\<bar> \<le> \<bar>s - a'\<bar> + E + D"
    using assms by linarith
  have "\<bar>double_round (b - a) - (b - a)\<bar> \<le> double_u * (\<bar>b - a\<bar> + double_min)"
    by (rule double_round_error)
  also have "\<dots> \<le> double_u * ((\<bar>s - a'\<bar> + E + D) + double_min)"
    using mag double_u_pos by (intro mult_left_mono) simp_all
  finally have r: "\<bar>double_round (b - a) - (b - a)\<bar>
                     \<le> double_u * \<bar>s - a'\<bar> + double_u * E + double_u * D + double_u * double_min"
    by (simp add: algebra_simps)
  have "\<bar>double_round (b - a) - (s - a')\<bar>
          \<le> \<bar>double_round (b - a) - (b - a)\<bar> + \<bar>b - s\<bar> + \<bar>a - a'\<bar>"
    by linarith
  then have "\<bar>double_round (b - a) - (s - a')\<bar>
          \<le> double_u * \<bar>s - a'\<bar> + double_u * E + double_u * D + double_u * double_min + E + D"
    using r assms by linarith
  then show ?thesis by (simp add: algebra_simps)
qed

lemma geometric_step:
  assumes "E \<le> ((1 + double_u) ^ k - 1) * C" and "B \<le> double_u * C"
  shows "(1 + double_u) * E + B \<le> ((1 + double_u) ^ Suc k - 1) * C"
proof -
  have "(1 + double_u) * E \<le> (1 + double_u) * (((1 + double_u) ^ k - 1) * C)"
    using assms(1) double_u_pos by (intro mult_left_mono) simp_all
  then have "(1 + double_u) * E + B
               \<le> (1 + double_u) * (((1 + double_u) ^ k - 1) * C) + double_u * C"
    using assms(2) by linarith
  also have "\<dots> = ((1 + double_u) ^ Suc k - 1) * C"
    by (simp add: algebra_simps)
  finally show ?thesis .
qed

lemma geometric_linear:
  assumes "0 \<le> x" and "2 * real n * x \<le> 1"
  shows "(1 + x) ^ n \<le> 1 + 2 * real n * x"
  using assms(2)
proof (induction n)
  case 0
  then show ?case by simp
next
  case (Suc n)
  have small: "2 * real n * x \<le> 1"
    using Suc.prems assms(1) by (simp add: algebra_simps)
  have "(1 + x) ^ Suc n = (1 + x) ^ n * (1 + x)" by simp
  also have "\<dots> \<le> (1 + 2 * real n * x) * (1 + x)"
    using Suc.IH [OF small] assms(1) by (intro mult_right_mono) simp_all
  also have "\<dots> = 1 + 2 * real n * x + x + (2 * real n * x) * x"
    by (simp add: algebra_simps)
  also have "\<dots> \<le> 1 + 2 * real n * x + x + 1 * x"
    using small assms(1) by (intro add_left_mono mult_right_mono) simp_all
  also have "\<dots> = 1 + 2 * real (Suc n) * x"
    by (simp add: algebra_simps)
  finally show ?case .
qed

lemma add_round_step:
  assumes "\<bar>b - s\<bar> \<le> ((1 + double_u) ^ k - 1) * (M + double_min)" and "\<bar>s + a\<bar> \<le> M"
  shows "\<bar>double_round (b + a) - (s + a)\<bar> \<le> ((1 + double_u) ^ Suc k - 1) * (M + double_min)"
proof -
  have zero: "\<bar>(- a) - (- a)\<bar> \<le> 0" by simp
  have "\<bar>double_round (b - (- a)) - (s - (- a))\<bar>
          \<le> (1 + double_u) * (((1 + double_u) ^ k - 1) * (M + double_min) + 0)
             + double_u * (\<bar>s - (- a)\<bar> + double_min)"
    by (rule sub_round_error [OF assms(1) zero])
  then have "\<bar>double_round (b + a) - (s + a)\<bar>
          \<le> (1 + double_u) * (((1 + double_u) ^ k - 1) * (M + double_min))
             + double_u * (\<bar>s + a\<bar> + double_min)"
    by simp
  also have "\<dots> \<le> ((1 + double_u) ^ Suc k - 1) * (M + double_min)"
  proof (rule geometric_step)
    show "((1 + double_u) ^ k - 1) * (M + double_min)
            \<le> ((1 + double_u) ^ k - 1) * (M + double_min)" by simp
    show "double_u * (\<bar>s + a\<bar> + double_min) \<le> double_u * (M + double_min)"
      using assms(2) double_u_pos by (intro mult_left_mono) simp_all
  qed
  finally show ?thesis .
qed

lemma max0_diff: "\<bar>max 0 x - max 0 y\<bar> \<le> \<bar>x - (y::real)\<bar>"
  by (simp add: max_def)

lemma double_u_linear: "2 * double_u * (2 + double_u) \<le> 1 / 2 ^ 50"
  by (simp add: double_u_def)

lemma twelve_double_u: "12 * double_u \<le> 1 / 2 ^ 49"
  by (simp add: double_u_def)

section \<open>Amortisation schedules\<close>

lemma amortization_rows_length:
  "length (amortization_rows rate pp g b y n) = n"
  by (induction n arbitrary: b y) (simp_all add: Let_def)

lemma amortization_rows_principal_sum:
  "sum_list (map am_principal (amortization_rows rate pp g b y n))
     = pp * real_of_int (max 0 (y + int n - max y (g + 1)))"
proof (induction n arbitrary: b y)
  case 0
  then show ?case by simp
next
  case (Suc n)
  show ?case
  proof (cases "y > g")
    case True
    then show ?thesis
      by (simp add: Suc Let_def max_def algebra_simps)
  next
    case False
    then show ?thesis
      by (simp add: Suc Let_def max_def algebra_simps)
  qed
qed

lemma amortization_rows_last_endingBalance:
  "n > 0 \<Longrightarrow>
   am_endingBalance (last (amortization_rows rate pp g b y n))
     = max 0 (b - sum_list (map am_principal (amortization_rows rate pp g b y n)))"
proof (induction n arbitrary: b y)
  case 0
  then show ?case by simp
next
  case (Suc n)
  note step = Suc.IH
  show ?case
  proof (cases n)
    case 0
    then show ?thesis by (simp add: Let_def)
  next
    case (Suc m)
    then have "n > 0" by simp
    from step [OF this] have IH: "\<And>b y. am_endingBalance (last (amortization_rows rate pp g b y n))
     = max 0 (b - sum_list (map am_principal (amortization_rows rate pp g b y n)))" .
    have ne: "\<And>b y. amortization_rows rate pp g b y n \<noteq> []"
      using Suc by (simp add: Let_def)
    show ?thesis
      by (simp add: Let_def ne IH algebra_simps)
  qed
qed

lemma amortization_rows_grace:
  "y + int n - 1 \<le> g \<Longrightarrow> r \<in> set (amortization_rows rate pp g b y n) \<Longrightarrow> am_principal r = 0"
proof (induction n arbitrary: b y)
  case 0
  then show ?case by simp
next
  case (Suc n)
  from Suc.prems(1) have le: "(y + 1) + int n - 1 \<le> g" and ng: "\<not> y > g" by simp_all
  from Suc.prems(2) ng
  have "am_principal r = 0 \<or> r \<in> set (amortization_rows rate pp g b (y + 1) n)"
    by (auto simp add: Let_def)
  then show ?case using Suc.IH [OF le] by blast
qed

text \<open>
  In exact arithmetic, when \<open>termYears > gracePeriod \<ge> 0\<close>, the schedule has
  \<open>termYears\<close> rows, its principal column sums to the principal, and the ending
  balance of its last row is 0.
\<close>

lemma calculateAmortizationSchedule_exact:
  assumes "termYears > gracePeriod" and "gracePeriod \<ge> 0"
  shows "sum_list (map am_principal (calculateAmortizationSchedule p annualRate termYears gracePeriod)) = p
       \<and> length (calculateAmortizationSchedule p annualRate termYears gracePeriod) = nat termYears
       \<and> am_endingBalance (last (calculateAmortizationSchedule p annualRate termYears gracePeriod)) = 0"
proof -
  define pp where "pp = p / real_of_int (termYears - gracePeriod)"
  define rows where "rows = amortization_rows (annualRate / 100) pp gracePeriod p 1 (nat termYears)"
  have eq: "calculateAmortizationSchedule p annualRate termYears gracePeriod = rows"
    by (simp add: calculateAmortizationSchedule_def Let_def rows_def pp_def)
  have cnt: "max 0 (1 + int (nat termYears) - max 1 (gracePeriod + 1)) = termYears - gracePeriod"
    using assms by (simp add: max_def)
  have "sum_list (map am_principal rows) = pp * real_of_int (termYears - gracePeriod)"
    unfolding rows_def amortization_rows_principal_sum cnt ..
  then have s: "sum_list (map am_principal rows) = p"
    using assms by (simp add: pp_def)
  have pos: "nat termYears > 0" using assms by simp
  have "am_endingBalance (last rows) = max 0 (p - sum_list (map am_principal rows))"
    unfolding rows_def by (rule amortization_rows_last_endingBalance [OF pos])
  then have e: "am_endingBalance (last rows) = 0"
    by (simp add: s)
  have l: "length rows = nat termYears"
    by (simp add: rows_def amortization_rows_length)
  show ?thesis unfolding eq using s e l by simp
qed

text \<open>
  Claim C8. With \<open>termYears = 0\<close> the schedule is empty; with
  \<open>0 < termYears \<le> gracePeriod\<close> it has \<open>termYears\<close> rows and every row has principal
  0. (The quotient \<open>principal / (termYears - gracePeriod)\<close> is computed but never
  read on these inputs.)
\<close>

theorem C8_degenerate_schedules:
  "calculateAmortizationSchedule p annualRate 0 gracePeriod = []
   \<and> (0 < termYears \<and> termYears \<le> gracePeriod \<longrightarrow>
        length (calculateAmortizationSchedule p annualRate termYears gracePeriod) = nat termYears \<and>
        (\<forall>r \<in> set (calculateAmortizationSchedule p annualRate termYears gracePeriod).
            am_principal r = 0))"
proof -
  have "am_principal r = 0"
    if "0 < termYears" and "termYears \<le> gracePeriod"
      and "r \<in> set (calculateAmortizationSchedule p annualRate termYears gracePeriod)" for r
  proof -
    from that(1,2) have le: "1 + int (nat termYears) - 1 \<le> gracePeriod" by simp
    from that(3) show ?thesis
      unfolding calculateAmortizationSchedule_def Let_def
      by (rule amortization_rows_grace [OF le])
  qed
  then show ?thesis
    by (simp add: calculateAmortizationSchedule_def amortization_rows_length Let_def)
qed

theorem C8_degenerate_schedules_witness:
  "calculateAmortizationSchedule 100000 10 0 5 = []
   \<and> (0::int) < 3 \<and> (3::int) \<le> 5
   \<and> length (calculateAmortizationSchedule 100000 10 3 5) = 3
   \<and> map am_principal (calculateAmortizationSchedule 100000 10 3 5) = [0, 0, 0]"
  using C8_degenerate_schedules [where p = 100000 and annualRate = 10 and gracePeriod = 5
      and termYears = 3]
  by (simp add: calculateAmortizationSchedule_def numeral_3_eq_3)

subsection \<open>Schedules in double precision\<close>

lemma paying_rows_0 [simp]: "paying_rows g y 0 = 0"
  by (simp add: paying_rows_def)

lemma paying_rows_Suc:
  "paying_rows g y (Suc n) = (if y > g then 1 else 0) + paying_rows g (y + 1) n"
  by (simp add: paying_rows_def max_def)

lemma amortization_rows_d_length:
  "length (amortization_rows_d rate q g b y n) = n"
  by (induction n arbitrary: b y) (simp_all add: Let_def)

lemma amortization_rows_d_principal:
  "row \<in> set (amortization_rows_d rate q g b y n) \<Longrightarrow>
   am_principal row = (if am_year row > g then q else 0)"
proof (induction n arbitrary: b y)
  case 0
  then show ?case by simp
next
  case (Suc n)
  from Suc.prems have
    "(am_year row = y \<and> am_principal row = (if y > g then q else 0))
     \<or> row \<in> set (amortization_rows_d rate q g
                     (double_round (b - (if y > g then q else 0))) (y + 1) n)"
    by (auto simp add: Let_def)
  then show ?case using Suc.IH by auto
qed

lemma amortization_rows_d_principal_sum:
  "sum_list (map am_principal (amortization_rows_d rate q g b y n))
     = q * real_of_int (paying_rows g y n)"
proof (induction n arbitrary: b y)
  case 0
  then show ?case by simp
next
  case (Suc n)
  show ?case
    by (simp add: Suc Let_def paying_rows_Suc algebra_simps)
qed

lemma amortization_rows_d_last_error:
  assumes "n > 0"
    and "\<bar>b - s\<bar> \<le> ((1 + double_u) ^ k - 1) * C"
    and "C = (2 + double_u) * (P + double_min)"
    and "\<bar>q - pp\<bar> \<le> double_u * (P + double_min)"
    and "\<forall>j\<le>n. 0 < j \<longrightarrow> \<bar>s - pp * real_of_int (paying_rows g y j)\<bar> \<le> P"
  shows "\<bar>am_endingBalance (last (amortization_rows_d r q g b y n))
           - max 0 (s - pp * real_of_int (paying_rows g y n))\<bar>
         \<le> ((1 + double_u) ^ (k + n) - 1) * C"
  using assms
proof (induction n arbitrary: b s y k)
  case 0
  then show ?case by simp
next
  case (Suc n)
  note IH = Suc.IH and C = Suc.prems(3)
  define pd where "pd = (if y > g then q else 0)"
  define pe where "pe = (if y > g then pp else 0)"
  define b1 where "b1 = double_round (b - pd)"
  define s1 where "s1 = s - pe"
  have shift: "s - pp * real_of_int (paying_rows g y (Suc j))
                 = s1 - pp * real_of_int (paying_rows g (y + 1) j)" for j
    by (simp add: paying_rows_Suc s1_def pe_def algebra_simps)
  have s1P: "\<bar>s1\<bar> \<le> P"
    using Suc.prems(5) shift [of 0] by (auto simp add: One_nat_def)
  then have P0: "0 \<le> P" by linarith
  have PM: "0 \<le> P + double_min" using P0 double_min_pos by linarith
  have D: "\<bar>pd - pe\<bar> \<le> double_u * (P + double_min)"
    using Suc.prems(4) PM double_u_pos by (simp add: pd_def pe_def)
  have "\<bar>b1 - s1\<bar> \<le> (1 + double_u) * (((1 + double_u) ^ k - 1) * C + double_u * (P + double_min))
                      + double_u * (\<bar>s1\<bar> + double_min)"
    unfolding b1_def s1_def by (rule sub_round_error [OF Suc.prems(2) D])
  also have "\<dots> = (1 + double_u) * (((1 + double_u) ^ k - 1) * C)
                  + ((1 + double_u) * (double_u * (P + double_min))
                     + double_u * (\<bar>s1\<bar> + double_min))"
    by (simp add: algebra_simps)
  also have "\<dots> \<le> ((1 + double_u) ^ Suc k - 1) * C"
  proof (rule geometric_step)
    show "((1 + double_u) ^ k - 1) * C \<le> ((1 + double_u) ^ k - 1) * C" by simp
    have "double_u * (\<bar>s1\<bar> + double_min) \<le> double_u * (P + double_min)"
      using s1P double_u_pos by (intro mult_left_mono) simp_all
    then have "(1 + double_u) * (double_u * (P + double_min)) + double_u * (\<bar>s1\<bar> + double_min)
                 \<le> (1 + double_u) * (double_u * (P + double_min)) + double_u * (P + double_min)"
      by linarith
    also have "\<dots> = double_u * C" by (simp add: C algebra_simps)
    finally show "(1 + double_u) * (double_u * (P + double_min)) + double_u * (\<bar>s1\<bar> + double_min)
                    \<le> double_u * C" .
  qed
  finally have step: "\<bar>b1 - s1\<bar> \<le> ((1 + double_u) ^ Suc k - 1) * C" .
  show ?case
  proof (cases n)
    case 0
    have "am_endingBalance (last (amortization_rows_d r q g b y (Suc n))) = max 0 b1"
      using 0 by (simp add: Let_def b1_def pd_def)
    moreover have "s - pp * real_of_int (paying_rows g y (Suc n)) = s1"
      using 0 shift [of 0] by simp
    ultimately show ?thesis
      using step max0_diff [of b1 s1] 0 by simp
  next
    case (Suc m)
    then have pos: "0 < n" by simp
    have ne: "amortization_rows_d r q g b1 (y + 1) n \<noteq> []"
      using Suc by (simp add: Let_def)
    have last: "am_endingBalance (last (amortization_rows_d r q g b y (Suc n)))
                  = am_endingBalance (last (amortization_rows_d r q g b1 (y + 1) n))"
      using ne by (simp add: Let_def b1_def pd_def)
    have chain: "\<forall>j\<le>n. 0 < j \<longrightarrow> \<bar>s1 - pp * real_of_int (paying_rows g (y + 1) j)\<bar> \<le> P"
    proof (intro allI impI)
      fix j assume "j \<le> n" and "0 < j"
      then have "Suc j \<le> Suc n" and "0 < Suc j" by simp_all
      with Suc.prems(5) have "\<bar>s - pp * real_of_int (paying_rows g y (Suc j))\<bar> \<le> P" by blast
      then show "\<bar>s1 - pp * real_of_int (paying_rows g (y + 1) j)\<bar> \<le> P"
        by (simp only: shift)
    qed
    have "\<bar>am_endingBalance (last (amortization_rows_d r q g b1 (y + 1) n))
            - max 0 (s1 - pp * real_of_int (paying_rows g (y + 1) n))\<bar>
          \<le> ((1 + double_u) ^ (Suc k + n) - 1) * C"
      by (rule IH [OF pos step C Suc.prems(4) chain])
    then show ?thesis
      by (simp only: last shift add_Suc_right add_Suc)
  qed
qed

lemma amortization_rows_d_endingBalance_nonneg:
  "row \<in> set (amortization_rows_d r q g b y n) \<Longrightarrow> 0 \<le> am_endingBalance row"
proof (induction n arbitrary: b y)
  case 0
  then show ?case by simp
next
  case (Suc n)
  from Suc.prems have
    "0 \<le> am_endingBalance row
     \<or> row \<in> set (amortization_rows_d r q g
                     (double_round (b - (if y > g then q else 0))) (y + 1) n)"
    by (auto simp add: Let_def)
  then show ?case using Suc.IH by auto
qed

text \<open>
  The schedule of a loan of 1000 over three years without grace period, evaluated:
  \<open>1000 / 3\<close> rounds down to \<open>5864062014805333 / 2 ^ 44\<close>, the three balances are
  \<open>5864062014805334 / 2 ^ 43\<close>, \<open>5864062014805335 / 2 ^ 44\<close> and \<open>1 / 2 ^ 43\<close>.
\<close>

lemma round_third: "double_round (1000 / 3) = 5864062014805333 / 2 ^ 44"
  using double_round_eval [of 8 "1000 / 3"]
  by (simp add: round_half_even_def Let_def)

lemma round_balance_1:
  "double_round (1000 - 5864062014805333 / 2 ^ 44) = 5864062014805334 / 2 ^ 43"
  using double_round_eval [of 9 "1000 - 5864062014805333 / 2 ^ 44"]
  by (simp add: round_half_even_def Let_def)

lemma round_balance_2:
  "double_round (5864062014805334 / 2 ^ 43 - 5864062014805333 / 2 ^ 44)
     = 5864062014805335 / 2 ^ 44"
  using double_round_eval [of 8 "5864062014805334 / 2 ^ 43 - 5864062014805333 / 2 ^ 44"]
  by (simp add: round_half_even_def Let_def)

lemma round_balance_3:
  "double_round (5864062014805335 / 2 ^ 44 - 5864062014805333 / 2 ^ 44) = 1 / 2 ^ 43"
  using double_round_eval [of "- 43" "5864062014805335 / 2 ^ 44 - 5864062014805333 / 2 ^ 44"]
  by (simp add: round_half_even_def Let_def)

lemma ex_schedule_d_last:
  "am_endingBalance (last (calculateAmortizationSchedule_d 1000 10 3 0)) = 1 / 2 ^ 43"
proof -
  define q where "q = double_round (1000 / 3)"
  define b1 where "b1 = double_round (1000 - q)"
  define b2 where "b2 = double_round (b1 - q)"
  define b3 where "b3 = double_round (b2 - q)"
  have q: "q = 5864062014805333 / 2 ^ 44"
    unfolding q_def by (rule round_third)
  have b1: "b1 = 5864062014805334 / 2 ^ 43"
    unfolding b1_def q by (rule round_balance_1)
  have b2: "b2 = 5864062014805335 / 2 ^ 44"
    unfolding b2_def b1 q by (rule round_balance_2)
  have b3: "b3 = 1 / 2 ^ 43"
    unfolding b3_def b2 q by (rule round_balance_3)
  have "am_endingBalance (last (calculateAmortizationSchedule_d 1000 10 3 0)) = max 0 b3"
    by (simp add: calculateAmortizationSchedule_d_def numeral_3_eq_3 Let_def
        b3_def b2_def b1_def q_def)
  then show ?thesis by (simp add: b3)
qed

lemma ex_schedule_d_principal:
  "map am_principal (calculateAmortizationSchedule_d 1000 10 3 0)
     = [5864062014805333 / 2 ^ 44, 5864062014805333 / 2 ^ 44, 5864062014805333 / 2 ^ 44]"
proof -
  have "map am_principal (calculateAmortizationSchedule_d 1000 10 3 0)
          = [double_round (1000 / 3), double_round (1000 / 3), double_round (1000 / 3)]"
    by (simp add: calculateAmortizationSchedule_d_def numeral_3_eq_3 Let_def)
  then show ?thesis by (simp only: round_third)
qed

text \<open>
  Claim C5, as stated, fails in double precision: for
  \<open>calculateAmortizationSchedule (1000, 10, 3, 0)\<close>, which satisfies
  \<open>termYears > gracePeriod \<ge> 0\<close> and \<open>principal \<ge> 0\<close>, the ending balance of the last
  row is \<open>2 powi (- 43)\<close> (about \<open>1.137e-13\<close>), not 0.
\<close>

theorem C5_counterexample:
  "(0::int) \<le> 0 \<and> (0::int) < 3 \<and> (0::real) \<le> 1000
   \<and> am_endingBalance (last (calculateAmortizationSchedule_d 1000 10 3 0)) = 1 / 2 ^ 43
   \<and> am_endingBalance (last (calculateAmortizationSchedule_d 1000 10 3 0)) \<noteq> 0"
  using ex_schedule_d_last by simp

text \<open>
  Claim C5, amended. In double precision, when \<open>termYears > gracePeriod \<ge> 0\<close>,
  \<open>principal \<ge> 0\<close> and \<open>termYears \<le> 2 ^ 52\<close>: the schedule has \<open>termYears\<close> rows;
  the principal of a row is the rounded quotient
  \<open>principal / (termYears - gracePeriod)\<close> after the grace period and 0 within it;
  the principal column sums to the principal up to the relative error \<open>double_u\<close> of
  one rounding (and one underflow term per repaying row); and the ending balance of the
  last row lies between 0 and \<open>termYears * (principal + double_min) / 2 ^ 50\<close>. It is
  0 in exact arithmetic (\<open>calculateAmortizationSchedule_exact\<close>).
\<close>

theorem C5_schedule_repays_principal_rounded:
  assumes "termYears > gracePeriod" and "gracePeriod \<ge> 0" and "p \<ge> 0"
    and "termYears \<le> 2 ^ 52"
  shows "length (calculateAmortizationSchedule_d p annualRate termYears gracePeriod) = nat termYears
    \<and> (\<forall>row \<in> set (calculateAmortizationSchedule_d p annualRate termYears gracePeriod).
          am_principal row =
            (if am_year row > gracePeriod
             then double_round (p / real_of_int (termYears - gracePeriod)) else 0))
    \<and> \<bar>sum_list (map am_principal
              (calculateAmortizationSchedule_d p annualRate termYears gracePeriod)) - p\<bar>
          \<le> double_u * (p + real_of_int (termYears - gracePeriod) * double_min)
    \<and> 0 \<le> am_endingBalance
              (last (calculateAmortizationSchedule_d p annualRate termYears gracePeriod))
    \<and> am_endingBalance (last (calculateAmortizationSchedule_d p annualRate termYears gracePeriod))
          \<le> real_of_int termYears * (p + double_min) / 2 ^ 50"
proof -
  define m where "m = real_of_int (termYears - gracePeriod)"
  define q where "q = double_round (p / m)"
  define r where "r = double_round (annualRate / 100)"
  define n where "n = nat termYears"
  define rows where "rows = amortization_rows_d r q gracePeriod p 1 n"
  define C where "C = (2 + double_u) * (p + double_min)"
  have eq: "calculateAmortizationSchedule_d p annualRate termYears gracePeriod = rows"
    by (simp only: calculateAmortizationSchedule_d_def Let_def rows_def q_def r_def m_def n_def)
  have m1: "1 \<le> m" using assms(1) by (simp add: m_def)
  have npos: "0 < n" using assms(1,2) by (simp add: n_def)
  have pm: "0 \<le> p / m"
    using m1 assms(3) by simp
  have "1 * p \<le> m * p" using m1 assms(3) by (rule mult_right_mono)
  then have pm_le: "p / m \<le> p"
    using m1 by (simp add: field_simps)
  have count: "paying_rows gracePeriod 1 j = max 0 (int j - gracePeriod)" for j
    using assms(2) by (simp add: paying_rows_def max_def)
  have count_n: "real_of_int (paying_rows gracePeriod 1 n) = m"
    using assms(1,2) by (simp add: count n_def m_def)
  have "\<bar>p / m\<bar> = p / m" using pm by (rule abs_of_nonneg)
  then have qerr: "\<bar>q - p / m\<bar> \<le> double_u * (p / m + double_min)"
    using double_round_error [of "p / m"] unfolding q_def by (simp only:)
  also have "\<dots> \<le> double_u * (p + double_min)"
    using pm_le double_u_pos by (intro mult_left_mono) simp_all
  finally have qerr': "\<bar>q - p / m\<bar> \<le> double_u * (p + double_min)" .
  have len: "length rows = n"
    by (simp add: rows_def amortization_rows_d_length)
  have col: "\<forall>row\<in>set rows. am_principal row = (if am_year row > gracePeriod then q else 0)"
    unfolding rows_def by (blast dest: amortization_rows_d_principal)
  have "sum_list (map am_principal rows) - p = m * (q - p / m)"
    using m1 by (simp add: rows_def amortization_rows_d_principal_sum count_n algebra_simps)
  then have "\<bar>sum_list (map am_principal rows) - p\<bar> = m * \<bar>q - p / m\<bar>"
    using m1 by (simp add: abs_mult)
  also have "\<dots> \<le> m * (double_u * (p / m + double_min))"
    using qerr m1 by (intro mult_left_mono) simp_all
  also have "\<dots> = double_u * (p + m * double_min)"
    using m1 by (simp add: algebra_simps)
  finally have sum: "\<bar>sum_list (map am_principal rows) - p\<bar> \<le> double_u * (p + m * double_min)" .
  have ne: "rows \<noteq> []" using len npos by auto
  then have "last rows \<in> set rows" by simp
  then have nonneg: "0 \<le> am_endingBalance (last rows)"
    unfolding rows_def by (rule amortization_rows_d_endingBalance_nonneg)
  have chain: "\<forall>j\<le>n. 0 < j \<longrightarrow> \<bar>p - p / m * real_of_int (paying_rows gracePeriod 1 j)\<bar> \<le> p"
  proof (intro allI impI)
    fix j assume "j \<le> n"
    define c where "c = real_of_int (paying_rows gracePeriod 1 j)"
    have c0: "0 \<le> c" by (simp add: c_def count)
    have "paying_rows gracePeriod 1 j \<le> termYears - gracePeriod"
      using \<open>j \<le> n\<close> assms(1,2) by (simp add: count n_def)
    then have cm: "c \<le> m" by (simp add: c_def m_def)
    have "p / m * c \<le> p / m * m" using cm pm by (rule mult_left_mono)
    also have "\<dots> = p" using m1 by simp
    finally have "p / m * c \<le> p" .
    moreover have "0 \<le> p / m * c" using pm c0 by (rule mult_nonneg_nonneg)
    ultimately show "\<bar>p - p / m * real_of_int (paying_rows gracePeriod 1 j)\<bar> \<le> p"
      unfolding c_def [symmetric] by linarith
  qed
  have start: "\<bar>p - p\<bar> \<le> ((1 + double_u) ^ 0 - 1) * C" by simp
  have "\<bar>am_endingBalance (last rows)
          - max 0 (p - p / m * real_of_int (paying_rows gracePeriod 1 n))\<bar>
        \<le> ((1 + double_u) ^ (0 + n) - 1) * C"
    unfolding rows_def
    by (rule amortization_rows_d_last_error [OF npos start C_def qerr' chain])
  moreover have "p - p / m * real_of_int (paying_rows gracePeriod 1 n) = 0"
    using m1 by (simp add: count_n)
  ultimately have geo: "am_endingBalance (last rows) \<le> ((1 + double_u) ^ n - 1) * C"
    using nonneg by simp
  have nle: "real n \<le> 2 ^ 52"
    using assms(1,2,4) by (simp add: n_def)
  have small: "2 * real n * double_u \<le> 1"
    using nle by (simp add: double_u_def)
  have C0: "0 \<le> C"
    using assms(3) double_u_pos double_min_pos by (simp add: C_def)
  have "(1 + double_u) ^ n - 1 \<le> 2 * real n * double_u"
    using geometric_linear [OF less_imp_le [OF double_u_pos] small] by simp
  then have "((1 + double_u) ^ n - 1) * C \<le> 2 * real n * double_u * C"
    using C0 by (rule mult_right_mono)
  also have "\<dots> = (2 * double_u * (2 + double_u)) * (real n * (p + double_min))"
    by (simp add: C_def algebra_simps)
  also have "\<dots> \<le> 1 / 2 ^ 50 * (real n * (p + double_min))"
    using double_u_linear assms(3) double_min_pos by (intro mult_right_mono) simp_all
  also have "\<dots> = real_of_int termYears * (p + double_min) / 2 ^ 50"
    using assms(1,2) by (simp add: n_def)
  finally have lin: "((1 + double_u) ^ n - 1) * C
                       \<le> real_of_int termYears * (p + double_min) / 2 ^ 50" .
  have bound: "am_endingBalance (last rows) \<le> real_of_int termYears * (p + double_min) / 2 ^ 50"
    using geo lin by (rule order_trans)
  show ?thesis
    unfolding eq using len col sum nonneg bound
    by (simp add: n_def q_def m_def)
qed

theorem C5_schedule_repays_principal_rounded_witness:
  "(0::int) < 3 \<and> (0::int) \<le> 0 \<and> (0::real) \<le> 1000 \<and> (3::int) \<le> 2 ^ 52
   \<and> length (calculateAmortizationSchedule_d 1000 10 3 0) = 3
   \<and> map am_principal (calculateAmortizationSchedule_d 1000 10 3 0)
        = [5864062014805333 / 2 ^ 44, 5864062014805333 / 2 ^ 44, 5864062014805333 / 2 ^ 44]
   \<and> \<bar>sum_list (map am_principal (calculateAmortizationSchedule_d 1000 10 3 0)) - 1000\<bar>
        \<le> double_u * (1000 + 3 * double_min)
   \<and> am_endingBalance (last (calculateAmortizationSchedule_d 1000 10 3 0)) = 1 / 2 ^ 43
   \<and> am_endingBalance (last (calculateAmortizationSchedule_d 1000 10 3 0))
        \<le> 3 * (1000 + double_min) / 2 ^ 50"
  using C5_schedule_repays_principal_rounded [where termYears = 3 and gracePeriod = 0 and p = 1000 and annualRate = 10]
    ex_schedule_d_last ex_schedule_d_principal
  by simp

section \<open>Depreciation\<close>

lemma straightLine_nonneg:
  "salvage \<le> cost \<Longrightarrow> 0 \<le> straightLineDepreciation cost salvage life"
  by (simp add: straightLineDepreciation_def)

lemma decliningBalance_nonneg:
  "0 \<le> salvage \<Longrightarrow> 0 \<le> rate \<Longrightarrow> 0 \<le> decliningBalanceDepreciation cost salvage rate y life"
  by (simp add: decliningBalanceDepreciation_def Let_def)

lemma calculateDepreciation_nonneg:
  "salvage \<le> cost \<Longrightarrow> 0 \<le> salvage \<Longrightarrow> 0 \<le> rate \<Longrightarrow>
   0 \<le> calculateDepreciation cost salvage life rate m y p"
  by (simp add: calculateDepreciation_def Let_def straightLine_nonneg decliningBalance_nonneg
      split: depreciation_method.split)

lemma foldl_add_shift:
  "foldl (\<lambda>acc y. acc + f y) a ys = a + foldl (\<lambda>acc y. acc + f y) (0::real) ys"
proof (induction ys arbitrary: a)
  case Nil
  then show ?case by simp
next
  case (Cons y ys)
  show ?case
    using Cons [of "a + f y"] Cons [of "f y"] by simp
qed

lemma foldl_add_nonneg:
  "(\<And>y. 0 \<le> f y) \<Longrightarrow> (0::real) \<le> foldl (\<lambda>acc y. acc + f y) 0 ys"
proof (induction ys)
  case Nil
  then show ?case by simp
next
  case (Cons y ys)
  have "foldl (\<lambda>acc y. acc + f y) (0 + f y) ys = f y + foldl (\<lambda>acc y. acc + f y) 0 ys"
    using foldl_add_shift [of f "f y" ys] by simp
  then show ?case using Cons by (simp add: add_nonneg_nonneg)
qed

lemma foldl_add_upto_mono:
  assumes "\<And>y. 0 \<le> f y" and "j \<le> k"
  shows "foldl (\<lambda>acc y. acc + f y) (0::real) [i..j] \<le> foldl (\<lambda>acc y. acc + f y) 0 [i..k]"
proof (cases "i \<le> j")
  case True
  then have split: "[i..k] = [i..j] @ [j + 1..k]"
    using assms(2) by (rule upto_split2)
  have "foldl (\<lambda>acc y. acc + f y) 0 [i..k]
        = foldl (\<lambda>acc y. acc + f y) 0 [i..j] + foldl (\<lambda>acc y. acc + f y) 0 [j + 1..k]"
    unfolding split foldl_append
    using foldl_add_shift [of f "foldl (\<lambda>acc y. acc + f y) 0 [i..j]" "[j + 1..k]"] by simp
  then show ?thesis
    using foldl_add_nonneg [of f "[j + 1..k]"] assms(1) by simp
next
  case False
  then have "[i..j] = []" by simp
  then show ?thesis using foldl_add_nonneg [of f "[i..k]"] assms(1) by simp
qed

lemma foldl_add_sum_list:
  "foldl (\<lambda>acc y. acc + f y) (0::real) ys = sum_list (map f ys)"
proof (induction ys)
  case Nil
  then show ?case by simp
next
  case (Cons y ys)
  have "foldl (\<lambda>acc y. acc + f y) (0 + f y) ys = f y + foldl (\<lambda>acc y. acc + f y) 0 ys"
    using foldl_add_shift [of f "f y" ys] by simp
  then show ?case using Cons by simp
qed

lemma calculateAccumulatedDepreciation_sum:
  "calculateAccumulatedDepreciation cost salvage life rate m y p
     = min (sum_list (map (\<lambda>year. calculateDepreciation cost salvage life rate m year p) [p..y]))
           (cost - salvage)"
  by (simp add: calculateAccumulatedDepreciation_def Let_def foldl_add_sum_list)

lemma upto_1_3: "[1..3::int] = [1, 2, 3]"
  by (simp add: upto_rec1)

lemma upto_1_5: "[1..5::int] = [1, 2, 3, 4, 5]"
  by (simp add: upto_rec1)

lemma db_charges:
  "map (\<lambda>year. calculateDepreciation 10000 1000 10 20 declining_balance year 1) [1, 2, 3, 4, 5]
     = [2000, 1600, 1280, 1024, 4096 / 5]"
  by (simp add: calculateDepreciation_def decliningBalanceDepreciation_def Let_def
      eval_nat_numeral)

text \<open>
  Claim C9. \<open>calculateAccumulatedDepreciation\<close> is the sum of the annual charges of
  \<open>calculateDepreciation\<close> over the years from \<open>purchaseYear\<close> through the query year
  inclusive, clamped from above to \<open>cost - salvageValue\<close>. For an asset of the data
  model with \<open>salvageValue \<le> cost\<close> (salvage value and declining-balance rate not
  negative, as the data model and the input validation require) it does not decrease
  when the query year grows and never exceeds \<open>cost - salvageValue\<close>, under each of
  the three methods.
\<close>

theorem C9_accumulated_monotone_bounded:
  assumes "salvage \<le> cost" and "0 \<le> salvage" and "0 \<le> rate" and "y \<le> y'"
  shows "calculateAccumulatedDepreciation cost salvage life rate m y p
           = min (sum_list (map (\<lambda>year. calculateDepreciation cost salvage life rate m year p)
                              [p..y]))
                 (cost - salvage)
       \<and> calculateAccumulatedDepreciation cost salvage life rate m y p
           \<le> calculateAccumulatedDepreciation cost salvage life rate m y' p
       \<and> calculateAccumulatedDepreciation cost salvage life rate m y p \<le> cost - salvage"
proof -
  have nn: "\<And>x. 0 \<le> calculateDepreciation cost salvage life rate m x p"
    using assms(1-3) by (rule calculateDepreciation_nonneg)
  have "foldl (\<lambda>acc x. acc + calculateDepreciation cost salvage life rate m x p) 0 [p..y]
      \<le> foldl (\<lambda>acc x. acc + calculateDepreciation cost salvage life rate m x p) 0 [p..y']"
    using nn assms(4) by (rule foldl_add_upto_mono)
  then have "calculateAccumulatedDepreciation cost salvage life rate m y p
           \<le> calculateAccumulatedDepreciation cost salvage life rate m y' p
       \<and> calculateAccumulatedDepreciation cost salvage life rate m y p \<le> cost - salvage"
    by (simp add: calculateAccumulatedDepreciation_def Let_def min_def)
  then show ?thesis using calculateAccumulatedDepreciation_sum by blast
qed

theorem C9_accumulated_monotone_bounded_witness:
  "(1000::real) \<le> 10000 \<and> (0::real) \<le> 1000 \<and> (0::real) \<le> 20 \<and> (3::int) \<le> 5
   \<and> map (\<lambda>year. calculateDepreciation 10000 1000 10 20 declining_balance year 1) [1..3]
        = [2000, 1600, 1280]
   \<and> calculateAccumulatedDepreciation 10000 1000 10 20 declining_balance 3 1 = 4880
   \<and> calculateAccumulatedDepreciation 10000 1000 10 20 declining_balance 5 1 = 33616 / 5
   \<and> calculateAccumulatedDepreciation 10000 1000 10 20 declining_balance 3 1
        \<le> calculateAccumulatedDepreciation 10000 1000 10 20 declining_balance 5 1
   \<and> calculateAccumulatedDepreciation 10000 1000 10 20 declining_balance 3 1 \<le> 10000 - 1000"
  using C9_accumulated_monotone_bounded [where salvage = 1000 and cost = 10000 and rate = 20
      and y = 3 and y' = 5 and life = 10 and m = declining_balance and p = 1]
    C9_accumulated_monotone_bounded [where salvage = 1000 and cost = 10000 and rate = 20
      and y = 5 and y' = 5 and life = 10 and m = declining_balance and p = 1]
    db_charges
  by (simp add: upto_1_3 upto_1_5)

lemma calculateDepreciation_zero_life:
  "calculateDepreciation cost salvage 0 rate m year purchaseYear = 0"
  by (simp add: calculateDepreciation_def Let_def)

lemma calculateDepreciation_equal_salvage:
  "0 \<le> rate \<Longrightarrow> 0 \<le> cost \<Longrightarrow>
   calculateDepreciation cost cost life rate m year purchaseYear = 0"
proof -
  assume r: "0 \<le> rate" and c: "0 \<le> cost"
  have bv: "db_bookValue cost (rate / 100) cost n \<le> cost \<or> rate = 0" for n
  proof (cases n)
    case 0
    then show ?thesis by simp
  next
    case (Suc k)
    have "cost * (rate / 100) \<ge> 0" using r c by simp
    then show ?thesis using Suc by (simp add: Let_def)
  qed
  have "decliningBalanceDepreciation cost cost rate y life = 0" for y
    using bv [of "nat (y - 1)"] by (auto simp add: decliningBalanceDepreciation_def Let_def min_def)
  then show ?thesis
    by (simp add: calculateDepreciation_def Let_def straightLineDepreciation_def
        split: depreciation_method.split)
qed

text \<open>
  Claim C7. With \<open>usefulLife = 0\<close> the charge is 0 (lemma
  \<open>calculateDepreciation_zero_life\<close>), and with \<open>cost = salvageValue\<close> it is 0 under
  every method (lemma \<open>calculateDepreciation_equal_salvage\<close>). With
  \<open>cost < salvageValue\<close> the straight-line branch has no guard of the kind the
  declining-balance branch has (\<open>bookValue <= salvageValue\<close> returns 0): an asset
  of cost 100 and salvage value 200 over 10 years is charged - 10 in its first year.
\<close>

theorem C7_straight_line_charge_below_salvage:
  "calculateDepreciation 100 200 10 10 straight_line 1 1 = - 10
   \<and> calculateDepreciation 100 200 10 10 declining_balance 1 1 = 0
   \<and> calculateDepreciation 100 200 10 10 none 1 1 = 0"
  by (simp add: calculateDepreciation_def straightLineDepreciation_def
      decliningBalanceDepreciation_def)

section \<open>The sample project, evaluated\<close>

lemmas ex_defs = ex_project_def ex_investments_def ex_products_def ex_financing_def

lemma upto_0_1: "[0..1::int] = [0, 1]"
  by (simp add: upto_rec1)

lemma ex_cashFlows:
  "generateCashFlows ex_project ex_investments ex_products [] ex_financing =
    [\<lparr> cf_year = 0, operatingInflow = 0, operatingOutflow = 0, investingOutflow = 1000,
       financingInflow = 1000, financingOutflow = 0, netCashFlow = 0, cumulativeCashFlow = 0,
       discountedCashFlow = 0 \<rparr>,
     \<lparr> cf_year = 1, operatingInflow = 1000, operatingOutflow = 0, investingOutflow = 0,
       financingInflow = 0, financingOutflow = 0, netCashFlow = 1000, cumulativeCashFlow = 1000,
       discountedCashFlow = 10000 / 11 \<rparr>]"
  by (simp add: ex_defs generateCashFlows_def cashFlowYear_def operatingRevenue_def
      calculateDebtService_def debtService_step_def yearDepreciation_def
      calculateDepreciation_def Let_def upto_0_1)

lemma ex_incomeStatements:
  "generateIncomeStatements ex_project ex_investments ex_products [] ex_financing =
    [\<lparr> is_year = 1, is_revenue = 1000, costOfGoodsSold = 0, grossProfit = 1000,
       is_operatingExpenses = 0, is_depreciation = 0, operatingIncome = 1000,
       interestExpense = 0, taxableIncome = 1000, taxes = 0, netIncome = 1000 \<rparr>]"
  by (simp add: ex_defs generateIncomeStatements_def incomeStatementYear_def operatingRevenue_def
      calculateDebtService_def debtService_step_def yearDepreciation_def
      calculateDepreciation_def Let_def)

lemma ex_balanceSheets:
  "generateBalanceSheets ex_project ex_investments ex_products [] ex_financing
     (generateIncomeStatements ex_project ex_investments ex_products [] ex_financing)
   = [\<lparr> bs_year = 0, cash = 0, receivables = 0, inventory = 0, currentAssets = 0,
        fixedAssets = 1000, accumulatedDepreciation = 0, netFixedAssets = 1000,
        totalAssets = 1000, payables = 0, currentLiabilities = 0, longTermDebt = 0,
        totalLiabilities = 0, shareCapital = 1000, retainedEarnings = 0,
        totalEquity = 1000 \<rparr>,
      \<lparr> bs_year = 1, cash = 0, receivables = 0, inventory = 0, currentAssets = 0,
        fixedAssets = 1000, accumulatedDepreciation = 0, netFixedAssets = 1000,
        totalAssets = 1000, payables = 0, currentLiabilities = 0, longTermDebt = 0,
        totalLiabilities = 0, shareCapital = 1000, retainedEarnings = 1000,
        totalEquity = 2000 \<rparr>]"
  unfolding ex_incomeStatements
  by (simp add: ex_defs generateBalanceSheets_def balanceSheetYear_def longTermDebtOf_def
      calculateAccumulatedDepreciation_def calculateDepreciation_def Let_def upto_0_1)

lemma ex_inputs:
  "sensitivityInputs ex_project ex_investments ex_products [] ex_financing =
     \<lparr> pi_revenue = [1000], pi_operatingCosts = [0], investmentCost = 1000,
       pi_discountRate = 10, pi_cashFlows = [0, 1000] \<rparr>"
  unfolding sensitivityInputs_def ex_cashFlows
  by (simp add: ex_defs)

section \<open>Balance sheets\<close>

lemma balanceSheetYear_cash:
  "0 \<le> c \<Longrightarrow> cash (balanceSheetYear investments financing iss retained c year) = c"
  by (simp add: balanceSheetYear_def Let_def)

lemma balanceSheetYear_year:
  "bs_year (balanceSheetYear investments financing iss retained c year) = year"
  by (simp add: balanceSheetYear_def Let_def)

lemma balanceSheets_loop_cash:
  "row \<in> set (balanceSheets_loop investments financing iss retained 0 years) \<Longrightarrow> cash row = 0"
proof (induction years arbitrary: retained)
  case Nil
  then show ?case by simp
next
  case (Cons year years)
  have c0: "cash (balanceSheetYear investments financing iss retained 0 year) = 0"
    by (rule balanceSheetYear_cash) simp
  from Cons.prems have
    "row = balanceSheetYear investments financing iss retained 0 year \<or>
     row \<in> set (balanceSheets_loop investments financing iss
                  (retainedEarnings (balanceSheetYear investments financing iss retained 0 year))
                  0 years)"
    by (simp add: Let_def c0)
  then show ?case using c0 Cons.IH by blast
qed

lemma balanceSheets_loop_years:
  "map bs_year (balanceSheets_loop investments financing iss retained c years) = years"
  by (induction years arbitrary: retained c) (simp_all add: Let_def balanceSheetYear_year)

text \<open>
  In exact arithmetic \<open>generateBalanceSheets\<close> pushes one row for each year from 0 to
  \<open>constructionYears + operationYears\<close>, and the \<open>cash\<close> field of every row is 0: the
  assignment \<open>cash = totalAssets - netFixedAssets - receivables - inventory\<close> gives
  back the value \<open>cash\<close> had when \<open>totalAssets\<close> was built from it, and that value is
  0 from the start.
\<close>

lemma generateBalanceSheets_exact_cash:
  "map bs_year (generateBalanceSheets project investments products costs financing iss)
     = [0..constructionYears project + operationYears project]
   \<and> (\<forall>row \<in> set (generateBalanceSheets project investments products costs financing iss).
         cash row = 0)"
  by (simp add: generateBalanceSheets_def Let_def balanceSheets_loop_years balanceSheets_loop_cash)

text \<open>
  Claim C1. The accounting identity
  \<open>\<bar>totalAssets - (totalLiabilities + totalEquity)\<bar> < 10\<^sup>-\<^sup>6 * max 1 totalAssets\<close> fails on
  the sample project: in year 1 the assets are 1000 (the machine, cash 0) while
  liabilities plus equity are 2000 (share capital 1000, retained earnings 1000). The
  comment above the cash assignment says \<open>assets = liabilities + equity\<close>; the
  assignment never looks at the liabilities or the equity.
\<close>

theorem C1_identity_fails_on_sample_project:
  "map (\<lambda>row. \<bar>totalAssets row - (totalLiabilities row + totalEquity row)\<bar>
                < 1 / 10 ^ 6 * max 1 (totalAssets row))
     (generateBalanceSheets ex_project ex_investments ex_products [] ex_financing
        (generateIncomeStatements ex_project ex_investments ex_products [] ex_financing))
   = [True, False]"
  by (simp add: ex_balanceSheets)

subsection \<open>Balance sheets in double precision\<close>

lemma balanceSheetYear_d_cash:
  "cash (balanceSheetYear_d investments financing iss retained c year)
     = cashPlug_d c
         (inventory (balanceSheetYear_d investments financing iss retained c year))
         (netFixedAssets (balanceSheetYear_d investments financing iss retained c year))"
  by (simp add: balanceSheetYear_d_def cashPlug_d_def Let_def)

lemma balanceSheetYear_d_assets_independent:
  "inventory (balanceSheetYear_d investments financing iss retained c year)
     = inventory (balanceSheetYear_d investments financing' iss' retained' c' year)"
  "netFixedAssets (balanceSheetYear_d investments financing iss retained c year)
     = netFixedAssets (balanceSheetYear_d investments financing' iss' retained' c' year)"
  by (simp_all add: balanceSheetYear_d_def Let_def)

lemma balanceSheetYear_d_year:
  "bs_year (balanceSheetYear_d investments financing iss retained c year) = year"
  by (simp add: balanceSheetYear_d_def Let_def)

lemma cashPlug_d_nonneg: "0 \<le> cashPlug_d c i n"
  by (simp add: cashPlug_d_def Let_def)

lemma cashPlug_d_bound:
  assumes "\<bar>c\<bar> \<le> ((1 + double_u) ^ k - 1) * (M + double_min)" and "\<bar>i\<bar> + \<bar>n\<bar> \<le> M"
  shows "cashPlug_d c i n \<le> ((1 + double_u) ^ (k + 6) - 1) * (M + double_min)"
proof -
  define t1 where "t1 = double_round (c + 0)"
  define t2 where "t2 = double_round (t1 + i)"
  define t3 where "t3 = double_round (t2 + n)"
  define t4 where "t4 = double_round (t3 + (- n))"
  define t5 where "t5 = double_round (t4 + (- 0))"
  define t6 where "t6 = double_round (t5 + (- i))"
  have M0: "\<bar>0 + 0 :: real\<bar> \<le> M" and Mi: "\<bar>0 + i\<bar> \<le> M" and Min: "\<bar>i + n\<bar> \<le> M"
    and Mi': "\<bar>(i + n) + (- n)\<bar> \<le> M" and Mi'': "\<bar>i + (- 0)\<bar> \<le> M" and M0': "\<bar>i + (- i)\<bar> \<le> M"
    using assms(2) by simp_all
  have c: "\<bar>c - 0\<bar> \<le> ((1 + double_u) ^ k - 1) * (M + double_min)"
    using assms(1) by simp
  have e1: "\<bar>t1 - (0 + 0)\<bar> \<le> ((1 + double_u) ^ Suc k - 1) * (M + double_min)"
    unfolding t1_def by (rule add_round_step [OF c M0])
  have e2: "\<bar>t2 - (0 + i)\<bar> \<le> ((1 + double_u) ^ Suc (Suc k) - 1) * (M + double_min)"
    unfolding t2_def using e1 by (intro add_round_step [OF _ Mi]) simp
  have e3: "\<bar>t3 - (i + n)\<bar> \<le> ((1 + double_u) ^ Suc (Suc (Suc k)) - 1) * (M + double_min)"
    unfolding t3_def using e2 by (intro add_round_step [OF _ Min]) simp
  have e4: "\<bar>t4 - ((i + n) + (- n))\<bar>
              \<le> ((1 + double_u) ^ Suc (Suc (Suc (Suc k))) - 1) * (M + double_min)"
    unfolding t4_def by (rule add_round_step [OF e3 Mi'])
  have e5: "\<bar>t5 - (i + (- 0))\<bar>
              \<le> ((1 + double_u) ^ Suc (Suc (Suc (Suc (Suc k)))) - 1) * (M + double_min)"
    unfolding t5_def using e4 by (intro add_round_step [OF _ Mi'']) simp
  have e6: "\<bar>t6 - (i + (- i))\<bar>
              \<le> ((1 + double_u) ^ Suc (Suc (Suc (Suc (Suc (Suc k))))) - 1) * (M + double_min)"
    unfolding t6_def using e5 by (intro add_round_step [OF _ M0']) simp
  have k6: "Suc (Suc (Suc (Suc (Suc (Suc k))))) = k + 6" by simp
  have t6: "\<bar>t6\<bar> \<le> ((1 + double_u) ^ (k + 6) - 1) * (M + double_min)"
    using e6 unfolding k6 by simp
  have "cashPlug_d c i n = (if t6 < 0 then 0 else t6)"
    by (simp add: cashPlug_d_def Let_def t6_def t5_def t4_def t3_def t2_def t1_def)
  also have "\<dots> \<le> \<bar>t6\<bar>" by simp
  finally show ?thesis using t6 by (rule order_trans)
qed

lemma balanceSheets_loop_d_years:
  "map bs_year (balanceSheets_loop_d investments financing iss retained c years) = years"
  by (induction years arbitrary: retained c) (simp_all add: Let_def balanceSheetYear_d_year)

lemma balanceSheets_loop_d_cash_independent:
  "map cash (balanceSheets_loop_d investments financing iss retained c years)
     = map cash (balanceSheets_loop_d investments financing' iss' retained' c years)"
proof (induction years arbitrary: retained retained' c)
  case Nil
  then show ?case by simp
next
  case (Cons year years)
  have same: "cash (balanceSheetYear_d investments financing iss retained c year)
                = cash (balanceSheetYear_d investments financing' iss' retained' c year)"
    unfolding balanceSheetYear_d_cash
    using balanceSheetYear_d_assets_independent
      [of investments financing iss retained c year financing' iss' retained' c]
    by simp
  show ?case
    using Cons.IH [of "retainedEarnings (balanceSheetYear_d investments financing iss retained c year)"
        "cash (balanceSheetYear_d investments financing iss retained c year)"
        "retainedEarnings (balanceSheetYear_d investments financing' iss' retained' c year)"]
    by (simp add: Let_def same)
qed

lemma balanceSheets_loop_d_cash_bound:
  assumes "0 \<le> c" and "c \<le> ((1 + double_u) ^ k - 1) * (M + double_min)"
    and "\<forall>row\<in>set (balanceSheets_loop_d investments financing iss retained c years).
           \<bar>inventory row\<bar> + \<bar>netFixedAssets row\<bar> \<le> M"
    and "i < length years"
  shows "0 \<le> cash (balanceSheets_loop_d investments financing iss retained c years ! i)
       \<and> cash (balanceSheets_loop_d investments financing iss retained c years ! i)
           \<le> ((1 + double_u) ^ (k + 6 * (i + 1)) - 1) * (M + double_min)"
  using assms
proof (induction years arbitrary: retained c k i)
  case Nil
  then show ?case by simp
next
  case (Cons year years)
  define row where "row = balanceSheetYear_d investments financing iss retained c year"
  have rows: "balanceSheets_loop_d investments financing iss retained c (year # years)
                = row # balanceSheets_loop_d investments financing iss
                          (retainedEarnings row) (cash row) years"
    by (simp add: Let_def row_def)
  have M: "\<bar>inventory row\<bar> + \<bar>netFixedAssets row\<bar> \<le> M"
    using Cons.prems(3) unfolding rows by simp
  have rest: "\<forall>r\<in>set (balanceSheets_loop_d investments financing iss
                           (retainedEarnings row) (cash row) years).
                \<bar>inventory r\<bar> + \<bar>netFixedAssets r\<bar> \<le> M"
    using Cons.prems(3) unfolding rows by simp
  have cabs: "\<bar>c\<bar> \<le> ((1 + double_u) ^ k - 1) * (M + double_min)"
    using Cons.prems(1,2) by simp
  have cash_eq: "cash row = cashPlug_d c (inventory row) (netFixedAssets row)"
    unfolding row_def by (rule balanceSheetYear_d_cash)
  have nonneg: "0 \<le> cash row"
    unfolding cash_eq by (rule cashPlug_d_nonneg)
  have bound: "cash row \<le> ((1 + double_u) ^ (k + 6) - 1) * (M + double_min)"
    unfolding cash_eq by (rule cashPlug_d_bound [OF cabs M])
  show ?case
  proof (cases i)
    case 0
    then show ?thesis using nonneg bound unfolding rows by simp
  next
    case (Suc j)
    then have j: "j < length years" using Cons.prems(4) by simp
    have "0 \<le> cash (balanceSheets_loop_d investments financing iss
                        (retainedEarnings row) (cash row) years ! j)
       \<and> cash (balanceSheets_loop_d investments financing iss
                  (retainedEarnings row) (cash row) years ! j)
           \<le> ((1 + double_u) ^ ((k + 6) + 6 * (j + 1)) - 1) * (M + double_min)"
      by (rule Cons.IH [OF nonneg bound rest j])
    moreover have "(k + 6) + 6 * (j + 1) = k + 6 * (i + 1)" using Suc by simp
    moreover have "(row # balanceSheets_loop_d investments financing iss
                            (retainedEarnings row) (cash row) years) ! i
                     = balanceSheets_loop_d investments financing iss
                         (retainedEarnings row) (cash row) years ! j"
      using Suc by simp
    ultimately show ?thesis unfolding rows by (simp only:)
  qed
qed

lemma balanceSheets_loop_d_cash_nonneg:
  "row \<in> set (balanceSheets_loop_d investments financing iss retained c years) \<Longrightarrow> 0 \<le> cash row"
proof (induction years arbitrary: retained c)
  case Nil
  then show ?case by simp
next
  case (Cons year years)
  have "0 \<le> cash (balanceSheetYear_d investments financing iss retained c year)"
    unfolding balanceSheetYear_d_cash by (rule cashPlug_d_nonneg)
  then show ?case using Cons.prems Cons.IH by (auto simp add: Let_def)
qed

text \<open>
  The second sample project, evaluated. The inventory is \<open>33333 * 0.6\<close>, which rounds
  to \<open>5497503163298611 / 2 ^ 38\<close>; adding the machine of 100000 needs two more bits
  and rounds up to \<open>8246323464424653 / 2 ^ 36\<close>; subtracting 100000 and the inventory
  again leaves \<open>1 / 2 ^ 38\<close>. In the next year this residue is part of the current
  assets and the same value comes back.
\<close>

lemma round_100000: "double_round 100000 = 100000"
  using double_round_exact [of 100000 0] by simp

lemma round_33333: "double_round 33333 = 33333"
  using double_round_exact [of 33333 0] by simp

lemma round_six_tenths: "double_round (6 / 10) = 5404319552844595 / 2 ^ 53"
  using double_round_eval [of "- 1" "6 / 10"]
  by (simp add: round_half_even_def Let_def)

lemma round_inventory:
  "double_round (33333 * (5404319552844595 / 2 ^ 53)) = 5497503163298611 / 2 ^ 38"
  using double_round_eval [of 14 "33333 * (5404319552844595 / 2 ^ 53)"]
  by (simp add: round_half_even_def Let_def)

lemma round_plug_0: "double_round (0 + 0) = 0"
  by (simp add: double_round_0)

lemma round_plug_1: "double_round (0 + 5497503163298611 / 2 ^ 38) = 5497503163298611 / 2 ^ 38"
  using double_round_eval [of 14 "0 + 5497503163298611 / 2 ^ 38"]
  by (simp add: round_half_even_def Let_def)

lemma round_plug_2:
  "double_round (5497503163298611 / 2 ^ 38 + 100000) = 8246323464424653 / 2 ^ 36"
  using double_round_eval [of 16 "5497503163298611 / 2 ^ 38 + 100000"]
  by (simp add: round_half_even_def Let_def)

lemma round_plug_3:
  "double_round (8246323464424653 / 2 ^ 36 - 100000) = 5497503163298612 / 2 ^ 38"
  using double_round_eval [of 14 "8246323464424653 / 2 ^ 36 - 100000"]
  by (simp add: round_half_even_def Let_def)

lemma round_plug_4:
  "double_round (5497503163298612 / 2 ^ 38 - 0) = 5497503163298612 / 2 ^ 38"
  using double_round_eval [of 14 "5497503163298612 / 2 ^ 38 - 0"]
  by (simp add: round_half_even_def Let_def)

lemma round_plug_5:
  "double_round (5497503163298612 / 2 ^ 38 - 5497503163298611 / 2 ^ 38) = 1 / 2 ^ 38"
  using double_round_eval [of "- 38" "5497503163298612 / 2 ^ 38 - 5497503163298611 / 2 ^ 38"]
  by (simp add: round_half_even_def Let_def)

lemma round_plug_6: "double_round (1 / 2 ^ 38 + 0) = 1 / 2 ^ 38"
  using double_round_eval [of "- 38" "1 / 2 ^ 38 + 0"]
  by (simp add: round_half_even_def Let_def)

lemma round_plug_7:
  "double_round (1 / 2 ^ 38 + 5497503163298611 / 2 ^ 38) = 5497503163298612 / 2 ^ 38"
  using double_round_eval [of 14 "1 / 2 ^ 38 + 5497503163298611 / 2 ^ 38"]
  by (simp add: round_half_even_def Let_def)

lemma round_plug_8:
  "double_round (5497503163298612 / 2 ^ 38 + 100000) = 8246323464424653 / 2 ^ 36"
  using double_round_eval [of 16 "5497503163298612 / 2 ^ 38 + 100000"]
  by (simp add: round_half_even_def Let_def)

lemma ex2_cashPlug_first:
  "cashPlug_d 0 (5497503163298611 / 2 ^ 38) 100000 = 1 / 2 ^ 38"
  unfolding cashPlug_d_def Let_def round_plug_0 round_plug_1 round_plug_2 round_plug_3
    round_plug_4 round_plug_5
  by simp

lemma ex2_cashPlug_next:
  "cashPlug_d (1 / 2 ^ 38) (5497503163298611 / 2 ^ 38) 100000 = 1 / 2 ^ 38"
  unfolding cashPlug_d_def Let_def round_plug_6 round_plug_7 round_plug_8 round_plug_3
    round_plug_4 round_plug_5
  by simp

lemma ex2_inventory:
  assumes "0 \<le> year"
  shows "inventory (balanceSheetYear_d ex2_investments financing iss retained c year)
           = 5497503163298611 / 2 ^ 38"
proof -
  have "inventory (balanceSheetYear_d ex2_investments financing iss retained c year)
          = double_round (double_round 33333 * double_round (6 / 10))"
    using assms by (simp add: balanceSheetYear_d_def ex2_investments_def Let_def)
  then show ?thesis
    unfolding round_33333 round_six_tenths round_inventory .
qed

lemma ex2_netFixedAssets:
  assumes "year = 0 \<or> year = 1"
  shows "netFixedAssets (balanceSheetYear_d ex2_investments financing iss retained c year)
           = 100000"
  using assms
  by (auto simp add: balanceSheetYear_d_def ex2_investments_def Let_def round_100000
      double_round_0
      calculateAccumulatedDepreciation_d_def calculateDepreciation_d_def upto_0_1)

lemma ex2_cash:
  "map cash (generateBalanceSheets_d ex2_project ex2_investments [] [] [] ex2_incomeStatements)
     = [1 / 2 ^ 38, 1 / 2 ^ 38]"
proof -
  define row0 where "row0 = balanceSheetYear_d ex2_investments [] ex2_incomeStatements 0 0 0"
  define row1 where "row1 = balanceSheetYear_d ex2_investments [] ex2_incomeStatements
                              (retainedEarnings row0) (cash row0) 1"
  have rows: "generateBalanceSheets_d ex2_project ex2_investments [] [] [] ex2_incomeStatements
                = [row0, row1]"
    by (simp add: generateBalanceSheets_d_def ex2_project_def upto_0_1 Let_def row0_def row1_def)
  have c0: "cash row0 = 1 / 2 ^ 38"
    unfolding row0_def balanceSheetYear_d_cash
    by (simp only: ex2_inventory [OF order_refl] ex2_netFixedAssets [OF disjI1 [OF refl]]
        ex2_cashPlug_first)
  have c1: "cash row1 = 1 / 2 ^ 38"
    unfolding row1_def balanceSheetYear_d_cash c0
    by (simp only: ex2_inventory [OF zero_le_one] ex2_netFixedAssets [OF disjI2 [OF refl]]
        ex2_cashPlug_next)
  show ?thesis unfolding rows by (simp add: c0 c1)
qed

lemma ex2_assets:
  "map inventory (generateBalanceSheets_d ex2_project ex2_investments [] [] [] ex2_incomeStatements)
     = [5497503163298611 / 2 ^ 38, 5497503163298611 / 2 ^ 38]"
  "map netFixedAssets
     (generateBalanceSheets_d ex2_project ex2_investments [] [] [] ex2_incomeStatements)
     = [100000, 100000]"
proof -
  define row0 where "row0 = balanceSheetYear_d ex2_investments [] ex2_incomeStatements 0 0 0"
  define row1 where "row1 = balanceSheetYear_d ex2_investments [] ex2_incomeStatements
                              (retainedEarnings row0) (cash row0) 1"
  have rows: "generateBalanceSheets_d ex2_project ex2_investments [] [] [] ex2_incomeStatements
                = [row0, row1]"
    by (simp add: generateBalanceSheets_d_def ex2_project_def upto_0_1 Let_def row0_def row1_def)
  have i0: "inventory row0 = 5497503163298611 / 2 ^ 38"
    unfolding row0_def by (rule ex2_inventory [OF order_refl])
  have i1: "inventory row1 = 5497503163298611 / 2 ^ 38"
    unfolding row1_def by (rule ex2_inventory [OF zero_le_one])
  have n0: "netFixedAssets row0 = 100000"
    unfolding row0_def by (rule ex2_netFixedAssets [OF disjI1 [OF refl]])
  have n1: "netFixedAssets row1 = 100000"
    unfolding row1_def by (rule ex2_netFixedAssets [OF disjI2 [OF refl]])
  show "map inventory
          (generateBalanceSheets_d ex2_project ex2_investments [] [] [] ex2_incomeStatements)
          = [5497503163298611 / 2 ^ 38, 5497503163298611 / 2 ^ 38]"
    unfolding rows by (simp only: list.map i0 i1)
  show "map netFixedAssets
          (generateBalanceSheets_d ex2_project ex2_investments [] [] [] ex2_incomeStatements)
          = [100000, 100000]"
    unfolding rows by (simp only: list.map n0 n1)
qed

text \<open>
  Claim C10, as stated, fails in double precision: for the second sample project
  the \<open>cash\<close> field is \<open>2 powi (- 38)\<close> (about \<open>3.638e-12\<close>) in both years, not 0.
\<close>

theorem C10_counterexample:
  "map cash (generateBalanceSheets_d ex2_project ex2_investments [] [] [] ex2_incomeStatements)
     = [1 / 2 ^ 38, 1 / 2 ^ 38]
   \<and> (1::real) / 2 ^ 38 \<noteq> 0"
  using ex2_cash by simp

text \<open>
  Claim C10, amended. In double precision, for a project of fewer than \<open>2 ^ 49\<close>
  years, \<open>generateBalanceSheets\<close> pushes one row for each year from 0 to
  \<open>constructionYears + operationYears\<close>; the \<open>cash\<close> field of every row is
  non-negative; the \<open>cash\<close> column is the same whatever the products, costs, financing
  and income statements are, so that the assignment never balances the sheet against
  liabilities and equity; and \<open>cash\<close> is no more than accumulated rounding error: if
  \<open>\<bar>inventory\<bar> + \<bar>netFixedAssets\<bar> \<le> M\<close> in every row, then the row of year \<open>y\<close>
  has \<open>cash \<le> (y + 1) * (M + double_min) / 2 ^ 49\<close>. It is 0 in exact arithmetic
  (\<open>generateBalanceSheets_exact_cash\<close>).
\<close>

theorem C10_cash_is_rounding_residue:
  assumes "constructionYears project + operationYears project < 2 ^ 49"
  shows "map bs_year (generateBalanceSheets_d project investments products costs financing iss)
           = [0..constructionYears project + operationYears project]
    \<and> (\<forall>row \<in> set (generateBalanceSheets_d project investments products costs financing iss).
          0 \<le> cash row)
    \<and> map cash (generateBalanceSheets_d project investments products costs financing iss)
        = map cash (generateBalanceSheets_d project investments products' costs' financing' iss')
    \<and> ((\<forall>row \<in> set (generateBalanceSheets_d project investments products costs financing iss).
           \<bar>inventory row\<bar> + \<bar>netFixedAssets row\<bar> \<le> M)
        \<longrightarrow> (\<forall>row \<in> set (generateBalanceSheets_d project investments products costs
                              financing iss).
               cash row \<le> real_of_int (bs_year row + 1) * (M + double_min) / 2 ^ 49))"
proof -
  define total where "total = constructionYears project + operationYears project"
  define rows where "rows = balanceSheets_loop_d investments financing iss 0 0 [0..total]"
  have eq: "generateBalanceSheets_d project investments products costs financing iss = rows"
    by (simp add: generateBalanceSheets_d_def Let_def rows_def total_def)
  have eq': "generateBalanceSheets_d project investments products' costs' financing' iss'
               = balanceSheets_loop_d investments financing' iss' 0 0 [0..total]"
    by (simp add: generateBalanceSheets_d_def Let_def total_def)
  have years: "map bs_year rows = [0..total]"
    unfolding rows_def by (rule balanceSheets_loop_d_years)
  have len: "length rows = length [0..total]"
    using years by (metis length_map)
  have indep: "map cash rows = map cash (balanceSheets_loop_d investments financing' iss' 0 0 [0..total])"
    unfolding rows_def by (rule balanceSheets_loop_d_cash_independent)
  have start: "(0::real) \<le> ((1 + double_u) ^ 0 - 1) * (K + double_min)" for K by simp
  have nonneg: "\<forall>row\<in>set rows. 0 \<le> cash row"
    unfolding rows_def by (blast intro: balanceSheets_loop_d_cash_nonneg)
  have bound: "\<forall>row\<in>set rows. cash row \<le> real_of_int (bs_year row + 1) * (M + double_min) / 2 ^ 49"
    if M: "\<forall>row\<in>set rows. \<bar>inventory row\<bar> + \<bar>netFixedAssets row\<bar> \<le> M"
  proof
    fix row assume mem: "row \<in> set rows"
    then obtain i where i: "i < length rows" and row: "rows ! i = row"
      by (auto simp add: in_set_conv_nth)
    have i': "i < length [0..total]" using i len by simp
    have "bs_year row = map bs_year rows ! i" using i row by simp
    also have "\<dots> = [0..total] ! i" by (simp only: years)
    also have "\<dots> = int i" using i' by simp
    finally have yr: "bs_year row = int i" .
    have ile: "int i \<le> total" using i' by simp
    have M0: "0 \<le> M + double_min"
      using M mem double_min_pos by (smt (verit) abs_ge_zero)
    have geo: "cash (rows ! i) \<le> ((1 + double_u) ^ (0 + 6 * (i + 1)) - 1) * (M + double_min)"
      using balanceSheets_loop_d_cash_bound
        [OF order_refl start [of M] M [unfolded rows_def] i']
      unfolding rows_def by simp
    have "real (6 * (i + 1)) \<le> 6 * 2 ^ 49"
      using ile assms unfolding total_def [symmetric] by simp
    then have small: "2 * real (6 * (i + 1)) * double_u \<le> 1"
      by (simp add: double_u_def)
    have "(1 + double_u) ^ (6 * (i + 1)) - 1 \<le> 2 * real (6 * (i + 1)) * double_u"
      using geometric_linear [OF less_imp_le [OF double_u_pos] small] by simp
    then have "((1 + double_u) ^ (6 * (i + 1)) - 1) * (M + double_min)
                 \<le> 2 * real (6 * (i + 1)) * double_u * (M + double_min)"
      using M0 by (rule mult_right_mono)
    also have "\<dots> = (12 * double_u) * (real (i + 1) * (M + double_min))"
      by (simp add: algebra_simps)
    also have "\<dots> \<le> 1 / 2 ^ 49 * (real (i + 1) * (M + double_min))"
      using twelve_double_u M0 by (intro mult_right_mono) simp_all
    also have "\<dots> = real_of_int (bs_year row + 1) * (M + double_min) / 2 ^ 49"
      by (simp add: yr)
    finally show "cash row \<le> real_of_int (bs_year row + 1) * (M + double_min) / 2 ^ 49"
      using geo row by simp
  qed
  show ?thesis
    unfolding eq eq' total_def [symmetric]
    using years nonneg indep bound by blast
qed

theorem C10_cash_is_rounding_residue_witness:
  "constructionYears ex2_project + operationYears ex2_project < 2 ^ 49
   \<and> map bs_year
        (generateBalanceSheets_d ex2_project ex2_investments [] [] [] ex2_incomeStatements)
       = [0, 1]
   \<and> map cash
        (generateBalanceSheets_d ex2_project ex2_investments [] [] [] ex2_incomeStatements)
       = [1 / 2 ^ 38, 1 / 2 ^ 38]
   \<and> map cash (generateBalanceSheets_d ex2_project ex2_investments ex_products [] ex_financing [])
       = [1 / 2 ^ 38, 1 / 2 ^ 38]
   \<and> map inventory
        (generateBalanceSheets_d ex2_project ex2_investments [] [] [] ex2_incomeStatements)
       = [5497503163298611 / 2 ^ 38, 5497503163298611 / 2 ^ 38]
   \<and> map netFixedAssets
        (generateBalanceSheets_d ex2_project ex2_investments [] [] [] ex2_incomeStatements)
       = [100000, 100000]
   \<and> \<bar>5497503163298611 / 2 ^ 38\<bar> + \<bar>100000\<bar> \<le> (120000::real)
   \<and> (1::real) / 2 ^ 38 \<le> real_of_int (0 + 1) * (120000 + double_min) / 2 ^ 49
   \<and> (1::real) / 2 ^ 38 \<le> real_of_int (1 + 1) * (120000 + double_min) / 2 ^ 49"
proof -
  let ?rows = "generateBalanceSheets_d ex2_project ex2_investments [] [] [] ex2_incomeStatements"
  have total: "constructionYears ex2_project + operationYears ex2_project = 1"
    by (simp add: ex2_project_def)
  have years: "constructionYears ex2_project + operationYears ex2_project < 2 ^ 49"
    unfolding total by simp
  note inst = C10_cash_is_rounding_residue [OF years, where investments = ex2_investments and products = "[]"
      and costs = "[]" and financing = "[]" and iss = ex2_incomeStatements
      and products' = ex_products and costs' = "[]" and financing' = ex_financing
      and iss' = "[]" and M = 120000]
  have small: "\<bar>5497503163298611 / 2 ^ 38\<bar> + \<bar>100000\<bar> \<le> (120000::real)"
    by simp
  have "length ?rows = 2"
    using ex2_cash by (metis length_map length_Cons list.size(3) numeral_2_eq_2)
  then obtain row0 row1 where rows: "?rows = [row0, row1]"
    by (metis (no_types) length_0_conv length_Suc_conv numeral_2_eq_2)
  have assets: "\<forall>row\<in>set ?rows. \<bar>inventory row\<bar> + \<bar>netFixedAssets row\<bar> \<le> 120000"
    using ex2_assets small unfolding rows by simp
  have bs: "map bs_year ?rows = [0, 1]"
    using inst unfolding total by (simp add: upto_0_1)
  have other: "map cash (generateBalanceSheets_d ex2_project ex2_investments ex_products []
                           ex_financing []) = [1 / 2 ^ 38, 1 / 2 ^ 38]"
    using inst ex2_cash by simp
  have bound: "\<forall>row\<in>set ?rows. cash row \<le> real_of_int (bs_year row + 1) * (120000 + double_min) / 2 ^ 49"
    using inst assets by blast
  have b0: "(1::real) / 2 ^ 38 \<le> real_of_int (0 + 1) * (120000 + double_min) / 2 ^ 49"
    using bound bs ex2_cash unfolding rows by simp
  have b1: "(1::real) / 2 ^ 38 \<le> real_of_int (1 + 1) * (120000 + double_min) / 2 ^ 49"
    using bound bs ex2_cash unfolding rows by simp
  show ?thesis
    using years bs ex2_cash other ex2_assets small b0 b1 by simp
qed

section \<open>Indicators\<close>
















lemma foldl_enumerate_sum:
  "foldl (\<lambda>s (t, cf). s + g t cf) a (enumerate n xs)
     = a + sum_list (map (\<lambda>i. g (n + i) (xs ! i)) [0..<length xs])"
proof (induction xs arbitrary: n a)
  case Nil
  then show ?case by simp
next
  case (Cons x xs)
  have "map (\<lambda>i. g (n + i) ((x # xs) ! i)) [0..<length (x # xs)]
          = g n x # map (\<lambda>i. g (Suc n + i) (xs ! i)) [0..<length xs]"
    by (simp add: upt_conv_Cons map_Suc_upt [symmetric] del: upt_Suc)
  then show ?case by (simp add: Cons.IH add.assoc del: upt_Suc)
qed

lemma bcr_agrees_without_outflows:
  assumes "cashFlows \<noteq> []" and "\<forall>cf\<in>set (drop 1 cashFlows). cf > 0"
  shows "benefitCostRatio (calculateAllIndicators cashFlows r ti tn fc up vc)
           = spec_benefitCostRatio cashFlows r"
proof -
  have pos: "filter (\<lambda>cf. cf > 0) (drop 1 cashFlows) = drop 1 cashFlows"
    using assms(2) by simp
  have neg: "filter (\<lambda>cf. cf < 0) (drop 1 cashFlows) = []"
    using assms(2) by (auto simp add: filter_empty_conv)
  have nth: "\<forall>t\<in>set [1..<length cashFlows]. cashFlows ! t > 0"
  proof
    fix t assume "t \<in> set [1..<length cashFlows]"
    then have "t - 1 < length (drop 1 cashFlows)" and "cashFlows ! t = drop 1 cashFlows ! (t - 1)"
      by auto
    then show "cashFlows ! t > 0" using assms(2) nth_mem by metis
  qed
  have fpos: "filter (\<lambda>t. cashFlows ! t > 0) [1..<length cashFlows] = [1..<length cashFlows]"
    using nth by simp
  have fneg: "filter (\<lambda>t. cashFlows ! t < 0) [1..<length cashFlows] = []"
    using nth by (auto simp add: filter_empty_conv)
  have len: "Suc (length cashFlows - 1) = length cashFlows"
    using assms(1) by (cases cashFlows) simp_all
  have idx: "[1..<length cashFlows] = map Suc [0..<length cashFlows - 1]"
    using assms(1) by (cases cashFlows) (simp_all add: map_Suc_upt del: upt_Suc)
  have "pvBenefits cashFlows r
          = 0 + sum_list (map (\<lambda>i. drop 1 cashFlows ! i / (1 + r / 100) ^ (0 + i + 1))
                           [0..<length (drop 1 cashFlows)])"
    unfolding pvBenefits_def pos by (rule foldl_enumerate_sum)
  also have "map (\<lambda>i. drop 1 cashFlows ! i / (1 + r / 100) ^ (0 + i + 1))
               [0..<length (drop 1 cashFlows)]
           = map (\<lambda>i. cashFlows ! Suc i / (1 + r / 100) ^ Suc i) [0..<length cashFlows - 1]"
    by (rule map_cong) simp_all
  also have "\<dots> = map (\<lambda>t. cashFlows ! t / (1 + r / 100) ^ t) [1..<length cashFlows]"
    unfolding idx by (simp add: comp_def)
  finally have b: "pvBenefits cashFlows r
             = sum_list (map (\<lambda>t. cashFlows ! t / (1 + r / 100) ^ t) [1..<length cashFlows])"
    by simp
  have c: "pvCosts cashFlows r = \<bar>cashFlows ! 0\<bar>"
    unfolding pvCosts_def neg by simp
  have spec: "spec_benefitCostRatio cashFlows r
                = (if \<bar>cashFlows ! 0\<bar> = 0 then 0
                   else sum_list (map (\<lambda>t. cashFlows ! t / (1 + r / 100) ^ t)
                                   [1..<length cashFlows]) / \<bar>cashFlows ! 0\<bar>)"
    unfolding spec_benefitCostRatio_def Let_def fpos fneg by simp
  have code: "benefitCostRatio (calculateAllIndicators cashFlows r ti tn fc up vc)
                = (if \<bar>cashFlows ! 0\<bar> = 0 then 0
                   else sum_list (map (\<lambda>t. cashFlows ! t / (1 + r / 100) ^ t)
                                   [1..<length cashFlows]) / \<bar>cashFlows ! 0\<bar>)"
    unfolding calculateAllIndicators_def Let_def calculateBenefitCostRatio_def b c by simp
  show ?thesis unfolding spec code ..
qed

text \<open>
  Claim C6. The indicator bundle discounts the positive (and the negative) later cash
  flows by their position in the filtered array, not by their own year. For the series
  \<open>- 1000, - 100, 500\<close> at 10 percent the inflow of year 2 is discounted as if it fell
  in year 1: the bundle reports \<open>5 / 12\<close>, the formula of the specification gives
  \<open>25 / 66\<close>. Where every cash flow after year 0 is positive nothing is filtered
  out and the two agree (lemma \<open>bcr_agrees_without_outflows\<close>).
\<close>

theorem C6_bcr_discounts_by_filtered_position:
  "benefitCostRatio (calculateAllIndicators [- 1000, - 100, 500] 10 ti tn fc up vc) = 5 / 12
   \<and> spec_benefitCostRatio [- 1000, - 100, 500] 10 = 25 / 66"
  by (simp add: calculateAllIndicators_def Let_def calculateBenefitCostRatio_def pvBenefits_def
      pvCosts_def spec_benefitCostRatio_def upt_rec)

section \<open>Tornado data\<close>

lemma map_of_group_add:
  "map_of (group_add r G) k =
     (if k = sr_variable r
      then Some (case map_of G k of None \<Rightarrow> [r] | Some g \<Rightarrow> g @ [r])
      else map_of G k)"
  by (induction G) auto

lemma keys_group_add:
  "fst ` set (group_add r G) = insert (sr_variable r) (fst ` set G)"
  by (induction r G rule: group_add.induct) auto

lemma find_Some_mem: "find P xs = Some x \<Longrightarrow> x \<in> set xs \<and> P x"
  by (induction xs) (auto split: if_splits)

lemma filter_key_absent: "k \<notin> f ` set rs \<Longrightarrow> filter (\<lambda>r. f r = k) rs = []"
  by (induction rs) auto

lemma distinct_group_add:
  "distinct (map fst G) \<Longrightarrow> distinct (map fst (group_add r G))"
proof (induction G)
  case Nil
  then show ?case by simp
next
  case (Cons e G)
  obtain k g where e: "e = (k, g)" by (cases e)
  show ?case using Cons by (auto simp add: e keys_group_add)
qed

lemma group_results_snoc:
  "group_results (rs @ [r]) = group_add r (group_results rs)"
  by (simp add: group_results_def)

lemma distinct_group_results: "distinct (map fst (group_results rs))"
proof (induction rs rule: rev_induct)
  case Nil
  then show ?case by (simp add: group_results_def)
next
  case (snoc r rs)
  then show ?case by (simp add: group_results_snoc distinct_group_add)
qed

lemma map_of_group_results:
  "map_of (group_results rs) k =
     (if k \<in> sr_variable ` set rs then Some (filter (\<lambda>r. sr_variable r = k) rs) else None)"
proof (induction rs rule: rev_induct)
  case Nil
  then show ?case by (simp add: group_results_def)
next
  case (snoc r rs)
  then show ?case
    by (auto simp add: group_results_snoc map_of_group_add filter_key_absent)
qed

lemma group_results_entry:
  assumes "(k, g) \<in> set (group_results rs)"
  shows "g = filter (\<lambda>r. sr_variable r = k) rs" and "k \<in> sr_variable ` set rs"
proof -
  have "map_of (group_results rs) k = Some g"
    using assms distinct_group_results by (rule map_of_is_SomeI [rotated])
  then show "g = filter (\<lambda>r. sr_variable r = k) rs" and "k \<in> sr_variable ` set rs"
    by (auto simp add: map_of_group_results split: if_splits)
qed

lemma group_results_has_entry:
  assumes "k \<in> sr_variable ` set rs"
  shows "(k, filter (\<lambda>r. sr_variable r = k) rs) \<in> set (group_results rs)"
proof -
  have "map_of (group_results rs) k = Some (filter (\<lambda>r. sr_variable r = k) rs)"
    using assms by (simp add: map_of_group_results)
  then show ?thesis by (rule map_of_SomeD)
qed

lemma sorted_map_hd_le:
  "sorted (map f xs) \<Longrightarrow> x \<in> set xs \<Longrightarrow> f (hd xs) \<le> f x"
  by (cases xs) auto

lemma sorted_map_le_last:
  "sorted (map f xs) \<Longrightarrow> x \<in> set xs \<Longrightarrow> f x \<le> f (last xs)"
proof (cases xs rule: rev_cases)
  case Nil
  assume "x \<in> set xs"
  then show ?thesis using Nil by simp
next
  case (snoc ys y)
  assume "sorted (map f xs)" and "x \<in> set xs"
  then show ?thesis using snoc by (auto simp add: sorted_append)
qed

lemma tornado_rows_variable:
  "map tr_variable (tornado_rows e) = (if \<exists>r\<in>set (snd e). sr_variation r = 0 then [fst e] else [])"
proof (cases "find (\<lambda>r. sr_variation r = 0) (sort_key sr_variation (snd e))")
  case None
  then have "\<not> (\<exists>r\<in>set (snd e). sr_variation r = 0)"
    by (auto simp add: find_None_iff)
  then show ?thesis using None by (simp add: tornado_rows_def)
next
  case (Some b)
  then have mem: "b \<in> set (sort_key sr_variation (snd e))" and zero: "sr_variation b = 0"
    by (auto dest: find_Some_mem)
  from mem have ne: "sort_key sr_variation (snd e) \<noteq> []"
    by (cases "sort_key sr_variation (snd e)") simp_all
  from mem zero have ex: "\<exists>r\<in>set (snd e). sr_variation r = 0"
    by auto
  show ?thesis using Some ex ne by (simp add: tornado_rows_def Let_def)
qed

lemma tornado_rows_row:
  assumes "row \<in> set (tornado_rows (k, g))"
  shows "tr_variable row = k"
    and "impact row = \<bar>highNPV row - lowNPV row\<bar>"
    and "\<exists>lo\<in>set g. \<exists>hi\<in>set g. \<exists>b\<in>set g.
           sr_variation b = 0 \<and> baseNPV row = sr_npv b \<and>
           lowNPV row = sr_npv lo \<and> highNPV row = sr_npv hi \<and>
           (\<forall>r\<in>set g. sr_variation lo \<le> sr_variation r \<and> sr_variation r \<le> sr_variation hi)"
proof -
  define sorted' where "sorted' = sort_key sr_variation g"
  have srt: "sorted (map sr_variation sorted')" and st: "set sorted' = set g"
    by (simp_all add: sorted'_def)
  have rows: "tornado_rows (k, g) =
      (case find (\<lambda>r. sr_variation r = 0) sorted' of
         None \<Rightarrow> []
       | Some baseResult \<Rightarrow>
           (if sorted' = [] then []
            else [\<lparr> tr_variable = k, lowNPV = sr_npv (hd sorted'),
                    baseNPV = sr_npv baseResult, highNPV = sr_npv (last sorted'),
                    impact = \<bar>sr_npv (last sorted') - sr_npv (hd sorted')\<bar> \<rparr>]))"
    by (simp add: tornado_rows_def Let_def sorted'_def split: option.split)
  from assms obtain b where fb: "find (\<lambda>r. sr_variation r = 0) sorted' = Some b"
    unfolding rows by (cases "find (\<lambda>r. sr_variation r = 0) sorted'") auto
  from assms have ne: "sorted' \<noteq> []"
    and row: "row = \<lparr> tr_variable = k, lowNPV = sr_npv (hd sorted'),
                      baseNPV = sr_npv b, highNPV = sr_npv (last sorted'),
                      impact = \<bar>sr_npv (last sorted') - sr_npv (hd sorted')\<bar> \<rparr>"
    unfolding rows fb by (auto split: if_splits)
  from fb have b: "b \<in> set g" "sr_variation b = 0"
    using st by (auto dest: find_Some_mem)
  have lo: "hd sorted' \<in> set g" and hi: "last sorted' \<in> set g"
    using hd_in_set [OF ne] last_in_set [OF ne] unfolding st by blast+
  have ext: "\<forall>r\<in>set g. sr_variation (hd sorted') \<le> sr_variation r
                      \<and> sr_variation r \<le> sr_variation (last sorted')"
  proof
    fix r assume "r \<in> set g"
    then have r: "r \<in> set sorted'" by (simp add: st)
    show "sr_variation (hd sorted') \<le> sr_variation r
            \<and> sr_variation r \<le> sr_variation (last sorted')"
      using sorted_map_hd_le [OF srt r] sorted_map_le_last [OF srt r] by simp
  qed
  show "tr_variable row = k" and "impact row = \<bar>highNPV row - lowNPV row\<bar>"
    by (simp_all add: row)
  show "\<exists>lo\<in>set g. \<exists>hi\<in>set g. \<exists>b\<in>set g.
           sr_variation b = 0 \<and> baseNPV row = sr_npv b \<and>
           lowNPV row = sr_npv lo \<and> highNPV row = sr_npv hi \<and>
           (\<forall>r\<in>set g. sr_variation lo \<le> sr_variation r \<and> sr_variation r \<le> sr_variation hi)"
  proof (rule bexI [OF _ lo], rule bexI [OF _ hi], rule bexI [OF _ b(1)])
    show "sr_variation b = 0 \<and> baseNPV row = sr_npv b \<and>
           lowNPV row = sr_npv (hd sorted') \<and> highNPV row = sr_npv (last sorted') \<and>
           (\<forall>r\<in>set g. sr_variation (hd sorted') \<le> sr_variation r
                      \<and> sr_variation r \<le> sr_variation (last sorted'))"
      using b(2) ext by (simp add: row)
  qed
qed

lemma tornado_variables_list:
  "map tr_variable (concat (map tornado_rows G))
     = map fst (filter (\<lambda>e. \<exists>r\<in>set (snd e). sr_variation r = 0) G)"
  by (induction G) (simp_all add: tornado_rows_variable)

lemma tornado_sorted:
  "sorted_wrt (\<lambda>a b. impact b \<le> impact a) (generateTornadoData rs)"
proof -
  have "sorted (map (\<lambda>row. - impact row) (generateTornadoData rs))"
    unfolding generateTornadoData_def by (rule sorted_sort_key)
  then show ?thesis by (simp add: sorted_map)
qed

lemma tornado_set:
  "set (generateTornadoData rs) = (\<Union>e\<in>set (group_results rs). set (tornado_rows e))"
  by (simp add: generateTornadoData_def)

lemma distinct_map_insort_key:
  "distinct (map f (insort_key k x xs)) \<longleftrightarrow> f x \<notin> f ` set xs \<and> distinct (map f xs)"
  by (induction xs) (auto simp add: set_insort_key)

lemma distinct_map_sort_key:
  "distinct (map f (sort_key k xs)) \<longleftrightarrow> distinct (map f xs)"
  by (induction xs) (simp_all add: distinct_map_insort_key)

lemma tornado_distinct: "distinct (map tr_variable (generateTornadoData rs))"
proof -
  have "distinct (map tr_variable (concat (map tornado_rows (group_results rs))))"
    unfolding tornado_variables_list
    by (rule distinct_map_filter) (rule distinct_group_results)
  then show ?thesis by (simp add: generateTornadoData_def distinct_map_sort_key)
qed

lemma tornado_variables:
  "set (map tr_variable (generateTornadoData rs))
     = sr_variable ` {r \<in> set rs. sr_variation r = 0}"
proof -
  have "set (map tr_variable (generateTornadoData rs))
          = set (map tr_variable (concat (map tornado_rows (group_results rs))))"
    by (simp add: generateTornadoData_def)
  also have "\<dots> = fst ` {e \<in> set (group_results rs). \<exists>r\<in>set (snd e). sr_variation r = 0}"
    unfolding tornado_variables_list by simp
  also have "\<dots> = sr_variable ` {r \<in> set rs. sr_variation r = 0}"
  proof (intro set_eqI iffI)
    fix k
    assume "k \<in> fst ` {e \<in> set (group_results rs). \<exists>r\<in>set (snd e). sr_variation r = 0}"
    then obtain g r where e: "(k, g) \<in> set (group_results rs)" and r: "r \<in> set g"
      and z: "sr_variation r = 0"
      by auto
    from group_results_entry(1) [OF e] r have "r \<in> set rs" and "sr_variable r = k"
      by simp_all
    with z show "k \<in> sr_variable ` {r \<in> set rs. sr_variation r = 0}" by blast
  next
    fix k
    assume "k \<in> sr_variable ` {r \<in> set rs. sr_variation r = 0}"
    then obtain r where r: "r \<in> set rs" and k: "sr_variable r = k" and z: "sr_variation r = 0"
      by auto
    from r k have "k \<in> sr_variable ` set rs" by blast
    then have e: "(k, filter (\<lambda>r. sr_variable r = k) rs) \<in> set (group_results rs)"
      by (rule group_results_has_entry)
    have "r \<in> set (filter (\<lambda>r. sr_variable r = k) rs)" using r k by simp
    with z have "\<exists>r\<in>set (snd (k, filter (\<lambda>r. sr_variable r = k) rs)). sr_variation r = 0"
      by auto
    with e show "k \<in> fst ` {e \<in> set (group_results rs). \<exists>r\<in>set (snd e). sr_variation r = 0}"
      by force
  qed
  finally show ?thesis .
qed

lemma tornado_row:
  assumes "row \<in> set (generateTornadoData rs)"
  shows "impact row = \<bar>highNPV row - lowNPV row\<bar> \<and>
         (\<exists>lo\<in>set rs. \<exists>hi\<in>set rs. \<exists>b\<in>set rs.
            sr_variable lo = tr_variable row \<and> sr_variable hi = tr_variable row \<and>
            sr_variable b = tr_variable row \<and> sr_variation b = 0 \<and>
            baseNPV row = sr_npv b \<and> lowNPV row = sr_npv lo \<and> highNPV row = sr_npv hi \<and>
            (\<forall>r\<in>set rs. sr_variable r = tr_variable row \<longrightarrow>
                sr_variation lo \<le> sr_variation r \<and> sr_variation r \<le> sr_variation hi))"
proof -
  from assms obtain k g where e: "(k, g) \<in> set (group_results rs)"
    and row: "row \<in> set (tornado_rows (k, g))"
    unfolding tornado_set by auto
  have g: "g = filter (\<lambda>r. sr_variable r = k) rs"
    by (rule group_results_entry(1) [OF e])
  note props = tornado_rows_row [OF row]
  from props(3) obtain lo hi b where lo: "lo \<in> set g" and hi: "hi \<in> set g" and b: "b \<in> set g"
    and vals: "sr_variation b = 0" "baseNPV row = sr_npv b" "lowNPV row = sr_npv lo"
      "highNPV row = sr_npv hi"
    and ext: "\<forall>r\<in>set g. sr_variation lo \<le> sr_variation r \<and> sr_variation r \<le> sr_variation hi"
    by blast
  have mem: "lo \<in> set rs" "hi \<in> set rs" "b \<in> set rs"
    and var: "sr_variable lo = tr_variable row" "sr_variable hi = tr_variable row"
      "sr_variable b = tr_variable row"
    using lo hi b props(1) by (simp_all add: g)
  have ext': "\<forall>r\<in>set rs. sr_variable r = tr_variable row \<longrightarrow>
                sr_variation lo \<le> sr_variation r \<and> sr_variation r \<le> sr_variation hi"
    using ext props(1) by (simp add: g)
  show ?thesis
    using props(2) mem var vals ext' by blast
qed

lemma ex_tornado:
  "generateTornadoData ex_results =
     [\<lparr> tr_variable = ''costs'', lowNPV = 120, baseNPV = 100, highNPV = 80, impact = 40 \<rparr>]"
  by (simp add: generateTornadoData_def group_results_def tornado_rows_def ex_results_def Let_def)

text \<open>
  Claim C4, as stated, fails: \<open>lowNPV\<close> and \<open>highNPV\<close> are the net present values at
  the lowest and at the highest variation, not the smallest and the largest net present
  value. For a cost variable, whose net present value falls as the variation rises,
  the row has \<open>lowNPV = 120\<close> and \<open>highNPV = 80\<close>, while the minimum observed is 80 and
  the maximum 120.
\<close>

theorem C4_counterexample:
  "map lowNPV (generateTornadoData ex_results) = [120]
   \<and> map highNPV (generateTornadoData ex_results) = [80]
   \<and> Min (set (map sr_npv ex_results)) = 80
   \<and> Max (set (map sr_npv ex_results)) = 120"
  by (simp add: ex_tornado) (simp add: ex_results_def)

text \<open>
  Claim C4, amended. For every list of sensitivity results, \<open>generateTornadoData\<close>
  emits rows in descending order of \<open>impact\<close>, one row for each variable that has a
  result of variation 0 and none for the other variables. In each row \<open>baseNPV\<close> is the
  net present value of a result of that variable with variation 0, \<open>lowNPV\<close> that of a
  result of the variable with its lowest variation, \<open>highNPV\<close> that of a result with its
  highest variation, and \<open>impact = \<bar>highNPV - lowNPV\<bar>\<close>.
\<close>

theorem C4_tornado_rows:
  "sorted_wrt (\<lambda>a b. impact b \<le> impact a) (generateTornadoData rs)
   \<and> distinct (map tr_variable (generateTornadoData rs))
   \<and> set (map tr_variable (generateTornadoData rs))
       = sr_variable ` {r \<in> set rs. sr_variation r = 0}
   \<and> (\<forall>row\<in>set (generateTornadoData rs).
        impact row = \<bar>highNPV row - lowNPV row\<bar> \<and>
        (\<exists>lo\<in>set rs. \<exists>hi\<in>set rs. \<exists>b\<in>set rs.
            sr_variable lo = tr_variable row \<and> sr_variable hi = tr_variable row \<and>
            sr_variable b = tr_variable row \<and> sr_variation b = 0 \<and>
            baseNPV row = sr_npv b \<and> lowNPV row = sr_npv lo \<and> highNPV row = sr_npv hi \<and>
            (\<forall>r\<in>set rs. sr_variable r = tr_variable row \<longrightarrow>
                sr_variation lo \<le> sr_variation r \<and> sr_variation r \<le> sr_variation hi)))"
  using tornado_sorted tornado_distinct tornado_variables tornado_row by blast

theorem C4_tornado_rows_witness:
  "map impact (generateTornadoData ex_results) = [40]
   \<and> map tr_variable (generateTornadoData ex_results) = [''costs'']
   \<and> map baseNPV (generateTornadoData ex_results) = [100]"
  using C4_tornado_rows [where rs = ex_results]
  by (simp add: ex_tornado)

section \<open>Sensitivity driver and full projection\<close>

lemma map_index_diff:
  "map (\<lambda>i. map f zs ! i - map g zs ! i) [0..<length zs] = map (\<lambda>z. f z - g z) zs"
  by (rule nth_equalityI) simp_all

lemma recalculate_applyVariation:
  "recalculateCashFlows
     (applyVariation \<lparr> pi_revenue = map operatingInflow cfs,
                       pi_operatingCosts = map operatingOutflow cfs,
                       investmentCost = tot, pi_discountRate = rate,
                       pi_cashFlows = ncf \<rparr> var variation)
   = (- (tot * variationFactor [''investment'', ''investmentCost''] var variation)) #
     map (\<lambda>cf. operatingInflow cf * variationFactor [''revenue'', ''price'', ''sales''] var variation
               - operatingOutflow cf * variationFactor [''operatingCosts'', ''costs''] var variation)
       cfs"
proof -
  have a: "map (\<lambda>i. map ((\<lambda>r. r * c) \<circ> operatingInflow) cfs ! i - map operatingOutflow cfs ! i)
             [0..<length cfs] = map (\<lambda>cf. operatingInflow cf * c - operatingOutflow cf) cfs" for c
    using map_index_diff [of "(\<lambda>r. r * c) \<circ> operatingInflow" cfs operatingOutflow] by simp
  have b: "map (\<lambda>i. map operatingInflow cfs ! i - map ((\<lambda>r. r * c) \<circ> operatingOutflow) cfs ! i)
             [0..<length cfs] = map (\<lambda>cf. operatingInflow cf - operatingOutflow cf * c) cfs" for c
    using map_index_diff [of operatingInflow cfs "(\<lambda>r. r * c) \<circ> operatingOutflow"] by simp
  have c: "map (\<lambda>i. map operatingInflow cfs ! i - map operatingOutflow cfs ! i)
             [0..<length cfs] = map (\<lambda>cf. operatingInflow cf - operatingOutflow cf) cfs"
    by (rule map_index_diff)
  show ?thesis
    by (simp add: recalculateCashFlows_def applyVariation_def variationFactor_def Let_def a b c)
qed

lemma discount_applyVariation:
  "pi_discountRate
     (applyVariation \<lparr> pi_revenue = rv, pi_operatingCosts = oc,
                       investmentCost = tot, pi_discountRate = rate,
                       pi_cashFlows = ncf \<rparr> var variation)
   = rate * variationFactor [''discountRate''] var variation"
  by (simp add: applyVariation_def variationFactor_def Let_def)

lemma ex_route_entry:
  "sensitivityRoute ex_project ex_investments ex_products [] ex_financing [''revenue''] ! 8
     = sensitivityResult (sensitivityInputs ex_project ex_investments ex_products [] ex_financing)
         ''revenue'' 20"
  by (simp add: sensitivityRoute_def calculateSensitivity_def)

lemma ex_driver_npv:
  "sr_npv (sensitivityResult
             (sensitivityInputs ex_project ex_investments ex_products [] ex_financing)
             ''revenue'' 20) = 1000 / 11"
  unfolding ex_inputs
  by (simp add: sensitivityResult_def applyVariation_def recalculateCashFlows_def
      calculateNPV_def Let_def)

lemma ex_scenario_npv:
  "calculateNPV
     (scenarioNetCashFlows [''revenue'' \<mapsto> 20] ex_project ex_investments ex_products []
        ex_financing)
     (proj_discountRate ex_project) = 12000 / 11"
proof -
  have a: "adjustInvestments [''revenue'' \<mapsto> 20] ex_investments = ex_investments"
    by (simp add: adjustInvestments_def adjusted_def ex_defs)
  have b: "adjustProducts [''revenue'' \<mapsto> 20] ex_products =
             [\<lparr> prod_unitPrice = 120, priceEscalation = 0,
                productionSchedule = [\<lparr> sched_year = 1, sched_quantity = 10 \<rparr>] \<rparr>]"
    by (simp add: adjustProducts_def adjusted_def js_or_def ex_defs)
  have c: "adjustCosts [''revenue'' \<mapsto> 20] [] = []"
    by (simp add: adjustCosts_def)
  have "map netCashFlow
          (generateCashFlows ex_project ex_investments
             [\<lparr> prod_unitPrice = 120, priceEscalation = 0,
                productionSchedule = [\<lparr> sched_year = 1, sched_quantity = 10 \<rparr>] \<rparr>]
             [] ex_financing) = [0, 1200]"
    by (simp add: ex_defs generateCashFlows_def cashFlowYear_def operatingRevenue_def
        calculateDebtService_def debtService_step_def yearDepreciation_def
        calculateDepreciation_def Let_def upto_0_1)
  then show ?thesis
    unfolding scenarioNetCashFlows_def a b c
    by (simp add: calculateNPV_def ex_project_def)
qed

text \<open>
  Claim C3, as stated, fails. On the sample project, for the variable \<open>revenue\<close> at
  plus 20 percent, the sensitivity route records a net present value of \<open>1000 / 11\<close>,
  from the series \<open>- 1000, 1200\<close>. The full projection of the adjusted project (unit
  price times 1.2) has the net cash flows \<open>0, 1200\<close>, because the equity contribution
  of year 0 offsets the investment, and its net present value is \<open>12000 / 11\<close>.
\<close>

theorem C3_counterexample:
  "sr_variable (sensitivityRoute ex_project ex_investments ex_products [] ex_financing
                  [''revenue''] ! 8) = ''revenue''
   \<and> sr_variation (sensitivityRoute ex_project ex_investments ex_products [] ex_financing
                  [''revenue''] ! 8) = 20
   \<and> sr_npv (sensitivityRoute ex_project ex_investments ex_products [] ex_financing
                  [''revenue''] ! 8) = 1000 / 11
   \<and> calculateNPV
        (scenarioNetCashFlows [''revenue'' \<mapsto> 20] ex_project ex_investments ex_products []
           ex_financing)
        (proj_discountRate ex_project) = 12000 / 11"
  unfolding ex_route_entry ex_driver_npv ex_scenario_npv
  by (simp add: sensitivityResult_def Let_def)

text \<open>
  Claim C3, amended. For every project and every list of variables, the sensitivity
  route records, for each variable in turn and each variation of
  \<open>- 20, - 15, - 10, - 5, 0, 5, 10, 15, 20\<close> in turn, the net present value and the
  internal rate of return of the simplified series \<open>driverSeries\<close>: minus the sum of all
  investment amounts in year 0, then operating inflow minus operating outflow of each
  later year of the unadjusted projection, with the factor \<open>1 + variation / 100\<close> on
  the inflows for \<open>revenue\<close>, \<open>price\<close>, \<open>sales\<close>, on the outflows for \<open>operatingCosts\<close>,
  \<open>costs\<close>, on the investment for \<open>investment\<close>, \<open>investmentCost\<close>, and on the
  discount rate for \<open>discountRate\<close>. Financing flows, the years of the investments and
  the taxes of the adjusted project do not enter.
\<close>

theorem C3_driver_uses_simplified_series:
  "sensitivityRoute project investments products costs financing variables =
     concat (map (\<lambda>var. map (\<lambda>variation.
         \<lparr> sr_variable = var, sr_variation = variation,
           sr_npv = calculateNPV
                      (driverSeries (generateCashFlows project investments products costs financing)
                         (foldl (\<lambda>sum inv. sum + inv_amount inv) 0 investments) var variation)
                      (proj_discountRate project * variationFactor [''discountRate''] var variation),
           sr_irr = calculateIRR
                      (driverSeries (generateCashFlows project investments products costs financing)
                         (foldl (\<lambda>sum inv. sum + inv_amount inv) 0 investments) var variation)
                      (1 / 10) \<rparr>)
       [- 20, - 15, - 10, - 5, 0, 5, 10, 15, 20]) variables)"
proof -
  have "sensitivityResult (sensitivityInputs project investments products costs financing) var variation =
         \<lparr> sr_variable = var, sr_variation = variation,
           sr_npv = calculateNPV
                      (driverSeries (generateCashFlows project investments products costs financing)
                         (foldl (\<lambda>sum inv. sum + inv_amount inv) 0 investments) var variation)
                      (proj_discountRate project * variationFactor [''discountRate''] var variation),
           sr_irr = calculateIRR
                      (driverSeries (generateCashFlows project investments products costs financing)
                         (foldl (\<lambda>sum inv. sum + inv_amount inv) 0 investments) var variation)
                      (1 / 10) \<rparr>" for var variation
    unfolding sensitivityResult_def sensitivityInputs_def Let_def driverSeries_def
      recalculate_applyVariation discount_applyVariation ..
  then show ?thesis
    by (simp add: sensitivityRoute_def calculateSensitivity_def)
qed

end
